theory Spec2Isabelle
  imports Main
begin

section \<open>Values of the request and of the response\<close>

text \<open>
  A field of \<open>req.body\<close> is a string or is absent (\<open>undefined\<close>): the routes declare
  every parameter of the body with \<open>type: string\<close>. \<open>None\<close> is the absent field. The
  handlers only ever test a field for truthiness, hand it to the driver, or interpolate
  it into a template string.
\<close>

type_synonym field = "string option"

type_synonym body = "string \<Rightarrow> field"

definition truthy :: "field \<Rightarrow> bool" where
  "truthy x = (case x of None \<Rightarrow> False | Some s \<Rightarrow> s \<noteq> [])"

text \<open>What a template string makes of an interpolated field.\<close>

definition toString :: "field \<Rightarrow> string" where
  "toString x = (case x of None \<Rightarrow> ''undefined'' | Some s \<Rightarrow> s)"

text \<open>What a template string makes of a non-negative integer: its decimal digits.\<close>

definition digit :: "nat \<Rightarrow> char" where
  "digit d = char_of (48 + d)"

fun numToString :: "nat \<Rightarrow> string" where
  "numToString n = (if n < 10 then [digit n] else numToString (n div 10) @ [digit (n mod 10)])"

text \<open>
  The values that occur in the objects the handlers send. \<open>'stmt\<close> is the driver's
  statement object and \<open>'v\<close> a cell of a result row; a row is an object from column names
  to cells. A JavaScript object literal is the list of its keys and values, in the order
  the source writes them.
\<close>

datatype ('stmt, 'v) jsval =
    Undefined
  | Str string
  | Stmt 'stmt
  | Cell 'v
  | Rows "(string \<Rightarrow> 'v option) list"
  | Obj "(string \<times> ('stmt, 'v) jsval) list"

type_synonym ('stmt, 'v) obj = "(string \<times> ('stmt, 'v) jsval) list"

type_synonym connParams = "(string \<times> field) list"

section \<open>Validation and the connection parameters\<close>

definition validateSnowflakeConnectionParams ::
    "field \<Rightarrow> field \<Rightarrow> field \<Rightarrow> ('stmt, 'v) obj option" where
  "validateSnowflakeConnectionParams account username password =
     (if \<not> truthy account then
        Some [(''status'', Str ''unsuccessful''), (''reason'', Str ''invalid account'')]
      else if \<not> truthy username then
        Some [(''status'', Str ''unsuccessful''), (''reason'', Str ''invalid username'')]
      else if \<not> truthy password then
        Some [(''status'', Str ''unsuccessful''), (''reason'', Str ''invalid password'')]
      else None)"

text \<open>
  The parameter object that \<open>getSnowflakeConnection\<close> builds before it calls the driver:
  the three required keys, then \<open>role\<close> and \<open>warehouse\<close> when truthy.
\<close>

definition connParams :: "field \<Rightarrow> field \<Rightarrow> field \<Rightarrow> field \<Rightarrow> field \<Rightarrow> connParams" where
  "connParams account username password role warehouse =
     (let p0 = [(''account'', account), (''username'', username), (''password'', password)];
          p1 = (if truthy role then p0 @ [(''role'', role)] else p0);
          p2 = (if truthy warehouse then p1 @ [(''warehouse'', warehouse)] else p1)
      in p2)"

text \<open>The query-text check of \<open>/query\<close>: \<open>None\<close> is the source's \<open>null\<close>.\<close>

definition queryValidation :: "field \<Rightarrow> ('stmt, 'v) obj option" where
  "queryValidation query =
     (if truthy query then None
      else Some [(''status'', Str ''unsuccessful''), (''reason'', Str ''A query must be provided'')])"

text \<open>
  The array that \<open>/relation-preview\<close> builds and filters with \<open>x => x\<close>: a \<open>null\<close> entry
  (\<open>None\<close>) is dropped, an object is kept.
\<close>

definition previewValidation :: "field \<Rightarrow> field \<Rightarrow> field \<Rightarrow> ('stmt, 'v) obj list" where
  "previewValidation database schema relation =
     map the (filter (\<lambda>x. x \<noteq> None)
       [if truthy database then None
        else Some [(''status'', Str ''unsuccessful''), (''reason'', Str ''A database must be provided'')],
        if truthy schema then None
        else Some [(''status'', Str ''unsuccessful''), (''reason'', Str ''A schema must be provided'')],
        if truthy relation then None
        else Some [(''status'', Str ''unsuccessful''), (''reason'', Str ''A relation must be provided'')]])"

section \<open>The driver, the response object and the run of a handler\<close>

text \<open>
  An exception carries its message. A driver failure is the error the driver hands to
  its callback; a \<open>TypeError\<close> is what reading a property of \<open>undefined\<close> throws;
  \<open>HeadersSent\<close> is what writing to a response that was already written throws.
\<close>

datatype exn = DriverError string | TypeError string | HeadersSent string

fun message :: "exn \<Rightarrow> string" where
  "message (DriverError m) = m"
| "message (TypeError m) = m"
| "message (HeadersSent m) = m"

text \<open>
  What a handler does to the outside, in order: the calls to the driver, the lines
  written to the console, and the calls of \<open>res.send\<close>. \<open>'h\<close> is a connection handle.
\<close>

datatype ('h, 'stmt, 'v) event =
    CreateConnection connParams
  | Connect 'h
  | Execute 'h field
  | GetId 'h
  | ConsoleError string
  | ConsoleDebug string
  | Send "('stmt, 'v) obj"

fun isSend :: "('h, 'stmt, 'v) event \<Rightarrow> bool" where
  "isSend (Send r) = True"
| "isSend _ = False"

fun isDriverCall :: "('h, 'stmt, 'v) event \<Rightarrow> bool" where
  "isDriverCall (CreateConnection p) = True"
| "isDriverCall (Connect h) = True"
| "isDriverCall (Execute h q) = True"
| "isDriverCall (GetId h) = True"
| "isDriverCall _ = False"

text \<open>
  The collaborators are parameters. The driver is a state machine over its own state
  \<open>'w\<close>: \<open>createConnection\<close> is synchronous and either returns a handle or throws
  (\<open>Inl\<close>, as a driver does that checks its parameters), \<open>connect\<close> calls back with an
  error or with none, \<open>execute\<close> calls back with an error or with the statement and the
  rows, \<open>getId\<close> reads the handle. An error is given by its message. A \<open>connect\<close> or
  \<open>execute\<close> that throws instead of calling back rejects the awaited promise all the
  same, so it is an error answer too.
  \<open>resendThrows\<close> says whether \<open>res.send\<close> throws when the response was already written
  (it does in Express) or lets the second write pass. \<open>typeErrorMessage\<close> is the
  engine's message for reading \<open>CNT\<close> of \<open>undefined\<close>.
\<close>

record ('h, 'w, 'stmt, 'v) env =
  createConnection :: "connParams \<Rightarrow> 'w \<Rightarrow> (string + 'h) \<times> 'w"
  connect :: "'h \<Rightarrow> 'w \<Rightarrow> string option \<times> 'w"
  execute :: "'h \<Rightarrow> field \<Rightarrow> 'w \<Rightarrow> (string + 'stmt \<times> (string \<Rightarrow> 'v option) list) \<times> 'w"
  getId :: "'h \<Rightarrow> 'w \<Rightarrow> string"
  resendThrows :: bool
  typeErrorMessage :: string

record ('h, 'w, 'stmt, 'v) state =
  trace :: "('h, 'stmt, 'v) event list"
  driver :: "'w"

text \<open>
  A piece of a handler takes the state and returns it updated, with a value or with the
  exception it threw.
\<close>

type_synonym ('h, 'w, 'stmt, 'v, 'a) prog =
  "('h, 'w, 'stmt, 'v) state \<Rightarrow> (exn + 'a) \<times> ('h, 'w, 'stmt, 'v) state"

definition ret :: "'a \<Rightarrow> ('h, 'w, 'stmt, 'v, 'a) prog" where
  "ret x = (\<lambda>s. (Inr x, s))"

definition throw :: "exn \<Rightarrow> ('h, 'w, 'stmt, 'v, 'a) prog" where
  "throw e = (\<lambda>s. (Inl e, s))"

definition andThen ::
    "('h, 'w, 'stmt, 'v, 'a) prog \<Rightarrow> ('a \<Rightarrow> ('h, 'w, 'stmt, 'v, 'b) prog) \<Rightarrow> ('h, 'w, 'stmt, 'v, 'b) prog" where
  "andThen m f = (\<lambda>s. case m s of (Inl e, s') \<Rightarrow> (Inl e, s') | (Inr x, s') \<Rightarrow> f x s')"

definition tryCatch ::
    "('h, 'w, 'stmt, 'v, 'a) prog \<Rightarrow> (exn \<Rightarrow> ('h, 'w, 'stmt, 'v, 'a) prog) \<Rightarrow> ('h, 'w, 'stmt, 'v, 'a) prog" where
  "tryCatch m c = (\<lambda>s. case m s of (Inl e, s') \<Rightarrow> c e s' | (Inr x, s') \<Rightarrow> (Inr x, s'))"

definition emit :: "('h, 'stmt, 'v) event \<Rightarrow> ('h, 'w, 'stmt, 'v, unit) prog" where
  "emit ev = (\<lambda>s. (Inr (), s\<lparr>trace := trace s @ [ev]\<rparr>))"

definition consoleError :: "string \<Rightarrow> ('h, 'w, 'stmt, 'v, unit) prog" where
  "consoleError m = emit (ConsoleError m)"

definition consoleDebug :: "string \<Rightarrow> ('h, 'w, 'stmt, 'v, unit) prog" where
  "consoleDebug m = emit (ConsoleDebug m)"

text \<open>
  \<open>res.send\<close>: the call is recorded; it throws when the response was already written
  and the response object refuses a second write.
\<close>

definition headersSent :: exn where
  "headersSent = HeadersSent ''Cannot set headers after they are sent to the client''"

definition resSend ::
    "('h, 'w, 'stmt, 'v) env \<Rightarrow> ('stmt, 'v) obj \<Rightarrow> ('h, 'w, 'stmt, 'v, unit) prog" where
  "resSend E r = (\<lambda>s.
     if resendThrows E \<and> list_ex isSend (trace s)
     then (Inl headersSent, s\<lparr>trace := trace s @ [Send r]\<rparr>)
     else (Inr (), s\<lparr>trace := trace s @ [Send r]\<rparr>))"

text \<open>\<open>if (v) { res.send(v); }\<close> for a validation result \<open>v\<close>.\<close>

definition sendIf ::
    "('h, 'w, 'stmt, 'v) env \<Rightarrow> ('stmt, 'v) obj option \<Rightarrow> ('h, 'w, 'stmt, 'v, unit) prog" where
  "sendIf E v = (case v of None \<Rightarrow> ret () | Some r \<Rightarrow> resSend E r)"

text \<open>
  \<open>getSnowflakeConnection\<close> builds the parameter object and calls
  \<open>snowflake.createConnection\<close>. No handler calls it inside a \<open>try\<close>: when the driver
  throws, the exception leaves the handler.
\<close>

definition getSnowflakeConnection ::
    "('h, 'w, 'stmt, 'v) env \<Rightarrow> field \<Rightarrow> field \<Rightarrow> field \<Rightarrow> field \<Rightarrow> field \<Rightarrow> ('h, 'w, 'stmt, 'v, 'h) prog" where
  "getSnowflakeConnection E account username password role warehouse = (\<lambda>s.
     let p = connParams account username password role warehouse;
         (res, w) = createConnection E p (driver s);
         s' = s\<lparr>trace := trace s @ [CreateConnection p], driver := w\<rparr>
     in case res of Inl m \<Rightarrow> (Inl (DriverError m), s') | Inr sfConn \<Rightarrow> (Inr sfConn, s'))"

text \<open>\<open>await util.promisify(sfConn.connect)()\<close>: rejects with the callback's error.\<close>

definition awaitConnect ::
    "('h, 'w, 'stmt, 'v) env \<Rightarrow> 'h \<Rightarrow> ('h, 'w, 'stmt, 'v, unit) prog" where
  "awaitConnect E sfConn = (\<lambda>s.
     let (err, w) = connect E sfConn (driver s);
         s' = s\<lparr>trace := trace s @ [Connect sfConn], driver := w\<rparr>
     in case err of Some m \<Rightarrow> (Inl (DriverError m), s') | None \<Rightarrow> (Inr (), s'))"

text \<open>
  \<open>executeSnowflakeQuery\<close>: rejects with the callback's error, resolves with the
  object \<open>{stmt, rows}\<close>.
\<close>

definition executeSnowflakeQuery ::
    "('h, 'w, 'stmt, 'v) env \<Rightarrow> 'h \<Rightarrow> field \<Rightarrow>
     ('h, 'w, 'stmt, 'v, 'stmt \<times> (string \<Rightarrow> 'v option) list) prog" where
  "executeSnowflakeQuery E sfConn sqlText = (\<lambda>s.
     let (res, w) = execute E sfConn sqlText (driver s);
         s' = s\<lparr>trace := trace s @ [Execute sfConn sqlText], driver := w\<rparr>
     in case res of Inl m \<Rightarrow> (Inl (DriverError m), s') | Inr (stmt, rows) \<Rightarrow> (Inr (stmt, rows), s'))"

definition stmtRows :: "'stmt \<times> (string \<Rightarrow> 'v option) list \<Rightarrow> ('stmt, 'v) jsval" where
  "stmtRows r = Obj [(''stmt'', Stmt (fst r)), (''rows'', Rows (snd r))]"

definition callGetId :: "('h, 'w, 'stmt, 'v) env \<Rightarrow> 'h \<Rightarrow> ('h, 'w, 'stmt, 'v, string) prog" where
  "callGetId E sfConn = (\<lambda>s. (Inr (getId E sfConn (driver s)), s\<lparr>trace := trace s @ [GetId sfConn]\<rparr>))"

text \<open>
  \<open>rows[0].CNT\<close>: with no row, \<open>rows[0]\<close> is \<open>undefined\<close> and reading \<open>CNT\<close> of it throws
  a \<open>TypeError\<close>; a row without the column gives \<open>undefined\<close>.
\<close>

definition firstRowCNT ::
    "('h, 'w, 'stmt, 'v) env \<Rightarrow> (string \<Rightarrow> 'v option) list \<Rightarrow> ('h, 'w, 'stmt, 'v, ('stmt, 'v) jsval) prog" where
  "firstRowCNT E rows =
     (case rows of
        [] \<Rightarrow> throw (TypeError (typeErrorMessage E))
      | row # _ \<Rightarrow> ret (case row ''CNT'' of None \<Rightarrow> Undefined | Some c \<Rightarrow> Cell c))"

section \<open>The three handlers\<close>

text \<open>\<open>snowflakeRouter.post('/')\<close>: neither \<open>res.send\<close> before the end is followed by a \<open>return\<close>.\<close>

definition post_root ::
    "('h, 'w, 'stmt, 'v) env \<Rightarrow> body \<Rightarrow> ('h, 'w, 'stmt, 'v, unit) prog" where
  "post_root E b =
     (let account = b ''account'';
          username = b ''username'';
          password = b ''password'';
          role = b ''role'';
          warehouse = b ''warehouse'';
          configValidation = validateSnowflakeConnectionParams account username password
      in
      andThen (sendIf E configValidation) (\<lambda>_.
      andThen (getSnowflakeConnection E account username password role warehouse) (\<lambda>sfConn.
      andThen (tryCatch (awaitConnect E sfConn)
                 (\<lambda>err. let errMsg = ''Error connecting to Snowflake: '' @ message err in
                    andThen (consoleError errMsg) (\<lambda>_.
                    resSend E [(''status'', Str ''unsuccessful''), (''reason'', Str errMsg)]))) (\<lambda>_.
      andThen (consoleDebug ''Successfully connected to Snowflake'') (\<lambda>_.
      andThen (callGetId E sfConn) (\<lambda>connectionId.
      resSend E [(''status'', Str ''successful''), (''connectionId'', Str connectionId)]))))))"

text \<open>
  The \<open>catch\<close> clause of \<open>/query\<close> and \<open>/relation-preview\<close>: log, send, \<open>return\<close>. A
  \<open>try\<close> statement of these handlers yields \<open>None\<close> when its \<open>catch\<close> clause returned from
  the handler, and the value it assigned otherwise.
\<close>

definition catchQueryError ::
    "('h, 'w, 'stmt, 'v) env \<Rightarrow> exn \<Rightarrow> ('h, 'w, 'stmt, 'v, 'a option) prog" where
  "catchQueryError E err =
     (let errMsg = ''Error executing Snowflake query: '' @ message err in
      andThen (consoleError errMsg) (\<lambda>_.
      andThen (resSend E [(''status'', Str ''unsuccessful''), (''reason'', Str errMsg)]) (\<lambda>_.
      ret None)))"

definition post_query ::
    "('h, 'w, 'stmt, 'v) env \<Rightarrow> body \<Rightarrow> ('h, 'w, 'stmt, 'v, unit) prog" where
  "post_query E b =
     (let account = b ''account'';
          username = b ''username'';
          password = b ''password'';
          role = b ''role'';
          warehouse = b ''warehouse'';
          query = b ''query'';
          configValidation = validateSnowflakeConnectionParams account username password
      in
      andThen (sendIf E configValidation) (\<lambda>_.
      andThen (sendIf E (queryValidation query)) (\<lambda>_.
      andThen (getSnowflakeConnection E account username password role warehouse) (\<lambda>sfConn.
      andThen (tryCatch
                 (andThen (awaitConnect E sfConn) (\<lambda>_.
                  andThen (executeSnowflakeQuery E sfConn query) (\<lambda>r.
                  ret (Some r))))
                 (catchQueryError E)) (\<lambda>queryResponse.
      case queryResponse of
        None \<Rightarrow> ret ()
      | Some r \<Rightarrow>
          andThen (consoleDebug ''Successfully queried Snowflake'') (\<lambda>_.
          resSend E [(''status'', Str ''successful''), (''response'', stmtRows r)]))))))"

definition numRowsInPreview :: nat where
  "numRowsInPreview = 100"

definition previewQuery :: "field \<Rightarrow> field \<Rightarrow> field \<Rightarrow> string" where
  "previewQuery database schema relation =
     ''SELECT * FROM '' @ toString database @ ''.'' @ toString schema @ ''.'' @ toString relation
       @ '' LIMIT '' @ numToString numRowsInPreview @ '';''"

definition describeQuery :: "field \<Rightarrow> field \<Rightarrow> field \<Rightarrow> string" where
  "describeQuery database schema relation =
     ''DESCRIBE TABLE '' @ toString database @ ''.'' @ toString schema @ ''.'' @ toString relation @ '';''"

definition countQuery :: "field \<Rightarrow> field \<Rightarrow> field \<Rightarrow> string" where
  "countQuery database schema relation =
     ''SELECT COUNT(*) AS CNT FROM '' @ toString database @ ''.'' @ toString schema @ ''.''
       @ toString relation @ '';''"

definition post_relation_preview ::
    "('h, 'w, 'stmt, 'v) env \<Rightarrow> body \<Rightarrow> ('h, 'w, 'stmt, 'v, unit) prog" where
  "post_relation_preview E b =
     (let account = b ''account'';
          username = b ''username'';
          password = b ''password'';
          database = b ''database'';
          schema = b ''schema'';
          relation = b ''relation'';
          role = b ''role'';
          warehouse = b ''warehouse'';
          configValidation = validateSnowflakeConnectionParams account username password;
          queryValidation = previewValidation database schema relation
      in
      andThen (sendIf E configValidation) (\<lambda>_.
      andThen (if length queryValidation > 0 then resSend E (queryValidation ! 0) else ret ()) (\<lambda>_.
      andThen (getSnowflakeConnection E account username password role warehouse) (\<lambda>sfConn.
      andThen (tryCatch
                 (andThen (awaitConnect E sfConn) (\<lambda>_.
                  andThen (executeSnowflakeQuery E sfConn (Some (previewQuery database schema relation))) (\<lambda>r.
                  ret (Some r))))
                 (catchQueryError E)) (\<lambda>dataPreviewResponse.
      case dataPreviewResponse of
        None \<Rightarrow> ret ()
      | Some preview \<Rightarrow>
      andThen (tryCatch
                 (andThen (executeSnowflakeQuery E sfConn (Some (describeQuery database schema relation))) (\<lambda>r.
                  ret (Some r)))
                 (catchQueryError E)) (\<lambda>columnDetailsResponse.
      case columnDetailsResponse of
        None \<Rightarrow> ret ()
      | Some columns \<Rightarrow>
      andThen (tryCatch
                 (andThen (executeSnowflakeQuery E sfConn (Some (countQuery database schema relation))) (\<lambda>rowcountResponse.
                  andThen (firstRowCNT E (snd rowcountResponse)) (\<lambda>c.
                  ret (Some c))))
                 (catchQueryError E)) (\<lambda>rowcount.
      case rowcount of
        None \<Rightarrow> ret ()
      | Some cnt \<Rightarrow>
          andThen (consoleDebug ''Successfully queried Snowflake'') (\<lambda>_.
          resSend E [(''status'', Str ''successful''), (''preview'', stmtRows preview),
                     (''columns'', stmtRows columns), (''rowcount'', cnt)]))))))))"

text \<open>A request starts with nothing written and the driver in some state.\<close>

definition start :: "'w \<Rightarrow> ('h, 'w, 'stmt, 'v) state" where
  "start w = \<lparr>trace = [], driver = w\<rparr>"

section \<open>What the routes are specified to do\<close>

text \<open>
  The first field of a list of named fields, in the order given, that is missing;
  the error object of the connection check for a field name; the error object of the
  preview check for a field name; and a field with the empty string taken as absent.
\<close>

definition firstMissing :: "(string \<times> field) list \<Rightarrow> string option" where
  "firstMissing fs = map_option fst (find (\<lambda>f. \<not> truthy (snd f)) fs)"

definition allMissing :: "(string \<times> field) list \<Rightarrow> string list" where
  "allMissing fs = map fst (filter (\<lambda>f. \<not> truthy (snd f)) fs)"

definition invalidField :: "string \<Rightarrow> ('stmt, 'v) obj" where
  "invalidField n = [(''status'', Str ''unsuccessful''), (''reason'', Str (''invalid '' @ n))]"

definition mustBeProvided :: "string \<Rightarrow> ('stmt, 'v) obj" where
  "mustBeProvided n =
     [(''status'', Str ''unsuccessful''), (''reason'', Str (''A '' @ n @ '' must be provided''))]"

definition unsuccessful :: "string \<Rightarrow> ('stmt, 'v) obj" where
  "unsuccessful reason = [(''status'', Str ''unsuccessful''), (''reason'', Str reason)]"

text \<open>
  The calls of \<open>res.send\<close> for a validation result, and what a \<open>catch\<close> clause does
  with the message \<open>m\<close> of the error it caught: one line on the console and one response.
\<close>

definition sends :: "('stmt, 'v) obj option \<Rightarrow> ('h, 'stmt, 'v) event list" where
  "sends v = (case v of None \<Rightarrow> [] | Some r \<Rightarrow> [Send r])"

definition errorTail :: "string \<Rightarrow> string \<Rightarrow> ('h, 'stmt, 'v) event list" where
  "errorTail pfx m = [ConsoleError (pfx @ m), Send (unsuccessful (pfx @ m))]"

text \<open>A field that is absent or the empty string.\<close>

definition emptyOrAbsent :: "field \<Rightarrow> bool" where
  "emptyOrAbsent x = (x = None \<or> x = Some [])"

definition blank :: "field \<Rightarrow> field" where
  "blank x = (if x = Some [] then None else x)"

text \<open>The parameter object a handler builds from a request body.\<close>

definition paramsOf :: "body \<Rightarrow> connParams" where
  "paramsOf b = connParams (b ''account'') (b ''username'') (b ''password'') (b ''role'') (b ''warehouse'')"

text \<open>The result of the connection check on a request body.\<close>

definition configCheck :: "body \<Rightarrow> ('stmt, 'v) obj option" where
  "configCheck b = validateSnowflakeConnectionParams (b ''account'') (b ''username'') (b ''password'')"

section \<open>A scripted driver for concrete runs\<close>

text \<open>
  A driver that builds a connection from any parameters, whose \<open>connect\<close> answers \<open>c\<close>,
  whose \<open>execute\<close> answers with the next entry of a script (the driver's state), and
  whose handle \<open>1\<close> has the id \<open>123\<close>; \<open>t\<close> says whether a second \<open>res.send\<close> throws.
\<close>

type_synonym script = "(string + nat \<times> (string \<Rightarrow> int option) list) list"

definition scripted :: "string option \<Rightarrow> bool \<Rightarrow> (nat, script, nat, int) env" where
  "scripted c t =
     \<lparr>createConnection = (\<lambda>p w. (Inr 1, w)),
      connect = (\<lambda>h w. (c, w)),
      execute = (\<lambda>h q w. case w of [] \<Rightarrow> (Inl ''no more results'', []) | x # w' \<Rightarrow> (x, w')),
      getId = (\<lambda>h w. ''123''),
      resendThrows = t,
      typeErrorMessage = ''Cannot read properties of undefined (reading 'CNT')''\<rparr>"

text \<open>
  The same driver, except that it checks the parameters as a driver does that needs
  them: \<open>createConnection\<close> throws when the username, the password or the account is
  absent.
\<close>

definition absent :: "connParams \<Rightarrow> string \<Rightarrow> bool" where
  "absent p k = (case map_of p k of None \<Rightarrow> True | Some x \<Rightarrow> x = None)"

definition guarded :: "string option \<Rightarrow> bool \<Rightarrow> (nat, script, nat, int) env" where
  "guarded c t =
     (scripted c t)
       \<lparr>createConnection := (\<lambda>p w.
          if absent p ''username'' then (Inl ''A user name must be specified.'', w)
          else if absent p ''password'' then (Inl ''A password must be specified.'', w)
          else if absent p ''account'' then (Inl ''An account must be specified.'', w)
          else (Inr 1, w))\<rparr>"

definition credentials :: body where
  "credentials = [''account'' \<mapsto> ''acct1'', ''username'' \<mapsto> ''u'', ''password'' \<mapsto> ''p'']"

definition previewBody :: body where
  "previewBody = credentials(''database'' \<mapsto> ''DB'', ''schema'' \<mapsto> ''SC'', ''relation'' \<mapsto> ''T'')"

definition queryBody :: body where
  "queryBody = credentials(''query'' \<mapsto> ''SELEC 1;'')"

text \<open>
  The answers of a driver to the three statements of a preview: two rows, three rows,
  and the one row \<open>{CNT: 5}\<close>.
\<close>

definition previewScript :: script where
  "previewScript =
     [Inr (1, [Map.empty, Map.empty]),
      Inr (2, [Map.empty, Map.empty, Map.empty]),
      Inr (3, [[''CNT'' \<mapsto> 5]])]"

section \<open>The runs of the handlers\<close>

lemmas prog_defs = ret_def throw_def andThen_def tryCatch_def emit_def consoleError_def
  consoleDebug_def resSend_def sendIf_def getSnowflakeConnection_def awaitConnect_def
  executeSnowflakeQuery_def callGetId_def firstRowCNT_def catchQueryError_def start_def

lemmas spec_defs = sends_def errorTail_def unsuccessful_def paramsOf_def configCheck_def

lemma root_run:
  assumes "createConnection E (paramsOf b) w = (Inr h, w1)" and "connect E h w1 = (c, w2)"
      and "pre = sends (configCheck b)"
  shows "post_root E b (start w) =
     (if resendThrows E \<and> (pre \<noteq> [] \<or> c \<noteq> None) then Inl headersSent else Inr (),
      \<lparr>trace = pre @ [CreateConnection (paramsOf b), Connect h]
         @ (case c of None \<Rightarrow> [] | Some m \<Rightarrow> errorTail ''Error connecting to Snowflake: '' m)
         @ (if resendThrows E \<and> pre \<noteq> [] \<and> c \<noteq> None then []
            else [ConsoleDebug ''Successfully connected to Snowflake'', GetId h,
                  Send [(''status'', Str ''successful''), (''connectionId'', Str (getId E h w2))]]),
       driver = w2\<rparr>)"
proof (cases "configCheck b :: ('c, 'd) obj option")
  case None
  then show ?thesis using assms
    by (cases c; cases "resendThrows E") (simp_all add: post_root_def Let_def prog_defs spec_defs)
next
  case (Some r)
  then show ?thesis using assms
    by (cases c; cases "resendThrows E") (simp_all add: post_root_def Let_def prog_defs spec_defs)
qed

lemma query_run:
  assumes "createConnection E (paramsOf b) w = (Inr h, w1)" and "connect E h w1 = (c, w2)"
      and "execute E h (b ''query'') w2 = (x, w3)"
      and "pre = sends (configCheck b) @ sends (queryValidation (b ''query''))"
  shows "post_query E b (start w) =
     (if resendThrows E \<and> length pre = 2 then (Inl headersSent, \<lparr>trace = pre, driver = w\<rparr>)
      else
       (if resendThrows E \<and> pre \<noteq> [] then Inl headersSent else Inr (),
        \<lparr>trace = pre @ [CreateConnection (paramsOf b), Connect h]
           @ (case c of Some m \<Rightarrow> errorTail ''Error executing Snowflake query: '' m
              | None \<Rightarrow> Execute h (b ''query'') #
                 (case x of Inl m \<Rightarrow> errorTail ''Error executing Snowflake query: '' m
                  | Inr r \<Rightarrow> [ConsoleDebug ''Successfully queried Snowflake'',
                              Send [(''status'', Str ''successful''), (''response'', stmtRows r)]])),
         driver = (if c = None then w3 else w2)\<rparr>))"
proof -
  consider (vv) "configCheck b = (None :: ('c, 'd) obj option)"
        "queryValidation (b ''query'') = (None :: ('c, 'd) obj option)"
    | (vi) r where "configCheck b = (None :: ('c, 'd) obj option)"
        "queryValidation (b ''query'') = Some (r :: ('c, 'd) obj)"
    | (iv) r where "configCheck b = Some (r :: ('c, 'd) obj)"
        "queryValidation (b ''query'') = (None :: ('c, 'd) obj option)"
    | (ii) r r' where "configCheck b = Some (r :: ('c, 'd) obj)"
        "queryValidation (b ''query'') = Some (r' :: ('c, 'd) obj)"
    by (cases "configCheck b :: ('c, 'd) obj option";
        cases "queryValidation (b ''query'') :: ('c, 'd) obj option") auto
  then show ?thesis
  proof cases
    case vv
    then show ?thesis using assms
      by (cases c; cases x)
         (simp_all add: post_query_def Let_def prog_defs spec_defs)
  next
    case vi
    then show ?thesis using assms
      by (cases c; cases x; cases "resendThrows E")
         (simp_all add: post_query_def Let_def prog_defs spec_defs)
  next
    case iv
    then show ?thesis using assms
      by (cases c; cases x; cases "resendThrows E")
         (simp_all add: post_query_def Let_def prog_defs spec_defs)
  next
    case ii
    then show ?thesis using assms
      by (cases c; cases x; cases "resendThrows E")
         (simp_all add: post_query_def Let_def prog_defs spec_defs)
  qed
qed

lemmas preview_defs = post_relation_preview_def Let_def prog_defs spec_defs

lemma preview_run:
  assumes "createConnection E (paramsOf b) w = (Inr h, w1)" and "connect E h w1 = (c, w2)"
      and "execute E h (Some (previewQuery (b ''database'') (b ''schema'') (b ''relation''))) w2 = (x1, w3)"
      and "execute E h (Some (describeQuery (b ''database'') (b ''schema'') (b ''relation''))) w3 = (x2, w4)"
      and "execute E h (Some (countQuery (b ''database'') (b ''schema'') (b ''relation''))) w4 = (x3, w5)"
      and "pre = sends (configCheck b)
             @ map Send (take 1 (previewValidation (b ''database'') (b ''schema'') (b ''relation'')))"
  shows "post_relation_preview E b (start w) =
     (if resendThrows E \<and> length pre = 2 then (Inl headersSent, \<lparr>trace = pre, driver = w\<rparr>)
      else
       (if resendThrows E \<and> pre \<noteq> [] then Inl headersSent else Inr (),
        \<lparr>trace = pre @ [CreateConnection (paramsOf b), Connect h]
           @ (case c of Some m \<Rightarrow> errorTail ''Error executing Snowflake query: '' m
              | None \<Rightarrow>
                 Execute h (Some (previewQuery (b ''database'') (b ''schema'') (b ''relation''))) #
                 (case x1 of Inl m \<Rightarrow> errorTail ''Error executing Snowflake query: '' m
                  | Inr r1 \<Rightarrow>
                 Execute h (Some (describeQuery (b ''database'') (b ''schema'') (b ''relation''))) #
                 (case x2 of Inl m \<Rightarrow> errorTail ''Error executing Snowflake query: '' m
                  | Inr r2 \<Rightarrow>
                 Execute h (Some (countQuery (b ''database'') (b ''schema'') (b ''relation''))) #
                 (case x3 of Inl m \<Rightarrow> errorTail ''Error executing Snowflake query: '' m
                  | Inr r3 \<Rightarrow>
                 (case snd r3 of
                    [] \<Rightarrow> errorTail ''Error executing Snowflake query: '' (typeErrorMessage E)
                  | row # _ \<Rightarrow>
                      [ConsoleDebug ''Successfully queried Snowflake'',
                       Send [(''status'', Str ''successful''), (''preview'', stmtRows r1),
                             (''columns'', stmtRows r2),
                             (''rowcount'', case row ''CNT'' of None \<Rightarrow> Undefined | Some n \<Rightarrow> Cell n)]]))))),
         driver = (case c of Some m \<Rightarrow> w2
                   | None \<Rightarrow> (case x1 of Inl m \<Rightarrow> w3
                              | Inr r1 \<Rightarrow> (case x2 of Inl m \<Rightarrow> w4 | Inr r2 \<Rightarrow> w5)))\<rparr>))"
proof -
  consider (vv) "configCheck b = (None :: ('c, 'd) obj option)"
        "previewValidation (b ''database'') (b ''schema'') (b ''relation'') = ([] :: ('c, 'd) obj list)"
    | (vi) r rs where "configCheck b = (None :: ('c, 'd) obj option)"
        "previewValidation (b ''database'') (b ''schema'') (b ''relation'') = (r :: ('c, 'd) obj) # rs"
    | (iv) r where "configCheck b = Some (r :: ('c, 'd) obj)"
        "previewValidation (b ''database'') (b ''schema'') (b ''relation'') = ([] :: ('c, 'd) obj list)"
    | (ii) r r' rs where "configCheck b = Some (r :: ('c, 'd) obj)"
        "previewValidation (b ''database'') (b ''schema'') (b ''relation'') = (r' :: ('c, 'd) obj) # rs"
    by (cases "configCheck b :: ('c, 'd) obj option";
        cases "previewValidation (b ''database'') (b ''schema'') (b ''relation'') :: ('c, 'd) obj list")
       auto
  then show ?thesis
  proof cases
    case vv
    then show ?thesis using assms
      by (cases c; simp add: preview_defs; cases x1; simp add: preview_defs;
          cases x2; simp add: preview_defs; cases x3; simp add: preview_defs;
          cases "snd (projr x3)"; simp add: preview_defs)
  next
    case vi
    then show ?thesis using assms
      by (cases "resendThrows E"; cases c; simp add: preview_defs; cases x1; simp add: preview_defs;
          cases x2; simp add: preview_defs; cases x3; simp add: preview_defs;
          cases "snd (projr x3)"; simp add: preview_defs)
  next
    case iv
    then show ?thesis using assms
      by (cases "resendThrows E"; cases c; simp add: preview_defs; cases x1; simp add: preview_defs;
          cases x2; simp add: preview_defs; cases x3; simp add: preview_defs;
          cases "snd (projr x3)"; simp add: preview_defs)
  next
    case ii
    then show ?thesis using assms
      by (cases "resendThrows E"; cases c; simp add: preview_defs; cases x1; simp add: preview_defs;
          cases x2; simp add: preview_defs; cases x3; simp add: preview_defs;
          cases "snd (projr x3)"; simp add: preview_defs)
  qed
qed

text \<open>The runs in which the driver refuses to build the connection.\<close>

lemma root_run_refused:
  assumes "createConnection E (paramsOf b) w = (Inl m, w1)"
      and "pre = sends (configCheck b)"
  shows "post_root E b (start w) =
     (Inl (DriverError m), \<lparr>trace = pre @ [CreateConnection (paramsOf b)], driver = w1\<rparr>)"
proof (cases "configCheck b :: ('c, 'd) obj option")
  case None
  then show ?thesis using assms
    by (simp add: post_root_def Let_def prog_defs spec_defs)
next
  case (Some r)
  then show ?thesis using assms
    by (simp add: post_root_def Let_def prog_defs spec_defs)
qed

lemma query_run_refused:
  assumes "createConnection E (paramsOf b) w = (Inl m, w1)"
      and "pre = sends (configCheck b) @ sends (queryValidation (b ''query''))"
  shows "post_query E b (start w) =
     (if resendThrows E \<and> length pre = 2 then (Inl headersSent, \<lparr>trace = pre, driver = w\<rparr>)
      else (Inl (DriverError m), \<lparr>trace = pre @ [CreateConnection (paramsOf b)], driver = w1\<rparr>))"
proof -
  have "configCheck b = (None :: ('c, 'd) obj option) \<or> (\<exists>r. configCheck b = Some (r :: ('c, 'd) obj))"
    by auto
  moreover have "queryValidation (b ''query'') = (None :: ('c, 'd) obj option)
      \<or> (\<exists>r. queryValidation (b ''query'') = Some (r :: ('c, 'd) obj))"
    by auto
  ultimately show ?thesis using assms
    by (cases "resendThrows E") (auto simp add: post_query_def Let_def prog_defs spec_defs)
qed

lemma preview_run_refused:
  assumes "createConnection E (paramsOf b) w = (Inl m, w1)"
      and "pre = sends (configCheck b)
             @ map Send (take 1 (previewValidation (b ''database'') (b ''schema'') (b ''relation'')))"
  shows "post_relation_preview E b (start w) =
     (if resendThrows E \<and> length pre = 2 then (Inl headersSent, \<lparr>trace = pre, driver = w\<rparr>)
      else (Inl (DriverError m), \<lparr>trace = pre @ [CreateConnection (paramsOf b)], driver = w1\<rparr>))"
proof -
  have "configCheck b = (None :: ('c, 'd) obj option) \<or> (\<exists>r. configCheck b = Some (r :: ('c, 'd) obj))"
    by auto
  moreover have "previewValidation (b ''database'') (b ''schema'') (b ''relation'') = ([] :: ('c, 'd) obj list)
      \<or> (\<exists>r rs. previewValidation (b ''database'') (b ''schema'') (b ''relation'') = (r :: ('c, 'd) obj) # rs)"
    by (cases "previewValidation (b ''database'') (b ''schema'') (b ''relation'') :: ('c, 'd) obj list") auto
  ultimately show ?thesis using assms
    by (cases "resendThrows E") (auto simp add: preview_defs)
qed

section \<open>The validation responses come first\<close>

lemma takeWhile_sends:
  assumes "list_all isSend pre" and "rest = [] \<or> \<not> isSend (hd rest)"
  shows "takeWhile isSend (pre @ rest) = pre"
proof -
  have "takeWhile isSend rest = []" using assms(2) by (cases rest) auto
  moreover have "\<forall>x\<in>set pre. isSend x" using assms(1) by (simp add: list_all_iff)
  ultimately show ?thesis by (simp add: takeWhile_append2)
qed

lemma root_prefix:
  "\<exists>rest. trace (snd (post_root E b (start w))) = sends (configCheck b) @ rest
      \<and> (rest = [] \<or> \<not> isSend (hd rest))"
proof -
  obtain x w1 where cc: "createConnection E (paramsOf b) w = (x, w1)"
    by (cases "createConnection E (paramsOf b) w")
  show ?thesis
  proof (cases x)
    case (Inl m)
    then show ?thesis using cc by (simp add: root_run_refused [OF _ refl])
  next
    case (Inr h)
    obtain c w2 where co: "connect E h w1 = (c, w2)"
      by (cases "connect E h w1")
    from Inr cc have cc': "createConnection E (paramsOf b) w = (Inr h, w1)" by simp
    show ?thesis by (simp add: root_run [OF cc' co refl])
  qed
qed

lemma query_prefix:
  "\<exists>rest. trace (snd (post_query E b (start w)))
       = sends (configCheck b) @ sends (queryValidation (b ''query'')) @ rest
      \<and> (rest = [] \<or> \<not> isSend (hd rest))"
proof -
  obtain y w1 where cc: "createConnection E (paramsOf b) w = (y, w1)"
    by (cases "createConnection E (paramsOf b) w")
  show ?thesis
  proof (cases y)
    case (Inl m)
    then show ?thesis using cc by (simp add: query_run_refused [OF _ refl])
  next
    case (Inr h)
    obtain c w2 where co: "connect E h w1 = (c, w2)"
      by (cases "connect E h w1")
    obtain x w3 where ex: "execute E h (b ''query'') w2 = (x, w3)"
      by (cases "execute E h (b ''query'') w2")
    from Inr cc have cc': "createConnection E (paramsOf b) w = (Inr h, w1)" by simp
    show ?thesis by (simp add: query_run [OF cc' co ex refl])
  qed
qed

lemma preview_prefix:
  "\<exists>rest. trace (snd (post_relation_preview E b (start w)))
       = sends (configCheck b)
         @ map Send (take 1 (previewValidation (b ''database'') (b ''schema'') (b ''relation''))) @ rest
      \<and> (rest = [] \<or> \<not> isSend (hd rest))"
proof -
  obtain y w1 where cc: "createConnection E (paramsOf b) w = (y, w1)"
    by (cases "createConnection E (paramsOf b) w")
  show ?thesis
  proof (cases y)
    case (Inl m)
    then show ?thesis using cc by (simp add: preview_run_refused [OF _ refl])
  next
    case (Inr h)
    obtain c w2 where co: "connect E h w1 = (c, w2)"
      by (cases "connect E h w1")
    obtain x1 w3 where e1:
      "execute E h (Some (previewQuery (b ''database'') (b ''schema'') (b ''relation''))) w2 = (x1, w3)"
      by (cases "execute E h (Some (previewQuery (b ''database'') (b ''schema'') (b ''relation''))) w2")
    obtain x2 w4 where e2:
      "execute E h (Some (describeQuery (b ''database'') (b ''schema'') (b ''relation''))) w3 = (x2, w4)"
      by (cases "execute E h (Some (describeQuery (b ''database'') (b ''schema'') (b ''relation''))) w3")
    obtain x3 w5 where e3:
      "execute E h (Some (countQuery (b ''database'') (b ''schema'') (b ''relation''))) w4 = (x3, w5)"
      by (cases "execute E h (Some (countQuery (b ''database'') (b ''schema'') (b ''relation''))) w4")
    from Inr cc have cc': "createConnection E (paramsOf b) w = (Inr h, w1)" by simp
    show ?thesis by (simp add: preview_run [OF cc' co e1 e2 e3 refl])
  qed
qed

lemma sends_all: "list_all isSend (sends v)"
  by (simp add: sends_def split: option.splits)

text \<open>
  The responses a handler sends before it turns to the driver are its validation
  responses, and nothing else.
\<close>

lemma preview_sends:
  "takeWhile isSend (trace (snd (post_relation_preview E b (start w))))
     = sends (configCheck b)
       @ map Send (take 1 (previewValidation (b ''database'') (b ''schema'') (b ''relation'')))"
proof -
  obtain rest where r: "trace (snd (post_relation_preview E b (start w)))
       = (sends (configCheck b)
         @ map Send (take 1 (previewValidation (b ''database'') (b ''schema'') (b ''relation'')))) @ rest"
     and h: "rest = [] \<or> \<not> isSend (hd rest)"
    using preview_prefix [of E b w] by auto
  have "list_all isSend (sends (configCheck b)
         @ map Send (take 1 (previewValidation (b ''database'') (b ''schema'') (b ''relation''))))"
    by (simp add: sends_all) (simp add: list_all_iff)
  then show ?thesis unfolding r using h by (rule takeWhile_sends)
qed

lemma query_sends:
  "takeWhile isSend (trace (snd (post_query E b (start w))))
     = sends (configCheck b) @ sends (queryValidation (b ''query''))"
proof -
  obtain rest where r: "trace (snd (post_query E b (start w)))
       = (sends (configCheck b) @ sends (queryValidation (b ''query''))) @ rest"
     and h: "rest = [] \<or> \<not> isSend (hd rest)"
    using query_prefix [of E b w] by auto
  have "list_all isSend (sends (configCheck b) @ sends (queryValidation (b ''query'')))"
    by (simp add: sends_all)
  then show ?thesis unfolding r using h by (rule takeWhile_sends)
qed

lemma root_sends:
  "takeWhile isSend (trace (snd (post_root E b (start w)))) = sends (configCheck b)"
proof -
  obtain rest where r: "trace (snd (post_root E b (start w))) = sends (configCheck b) @ rest"
     and h: "rest = [] \<or> \<not> isSend (hd rest)"
    using root_prefix [of E b w] by auto
  show ?thesis unfolding r using sends_all h by (rule takeWhile_sends)
qed

lemma sends_invalid:
  assumes "\<not> (truthy (b ''account'') \<and> truthy (b ''username'') \<and> truthy (b ''password''))"
  shows "\<exists>n. firstMissing [(''account'', b ''account''), (''username'', b ''username''),
                            (''password'', b ''password'')] = Some n
           \<and> configCheck b = Some (invalidField n)"
  using assms
  by (auto simp add: configCheck_def validateSnowflakeConnectionParams_def firstMissing_def invalidField_def)

section \<open>Facts for the concrete runs\<close>

lemma queries_literal:
  "previewQuery (Some d) (Some sc) (Some rl) = ''SELECT * FROM '' @ d @ ''.'' @ sc @ ''.'' @ rl @ '' LIMIT 100;''"
  "describeQuery (Some d) (Some sc) (Some rl) = ''DESCRIBE TABLE '' @ d @ ''.'' @ sc @ ''.'' @ rl @ '';''"
  "countQuery (Some d) (Some sc) (Some rl) = ''SELECT COUNT(*) AS CNT FROM '' @ d @ ''.'' @ sc @ ''.'' @ rl @ '';''"
proof -
  have "numToString 100 = ''100''" by code_simp
  then show "previewQuery (Some d) (Some sc) (Some rl) = ''SELECT * FROM '' @ d @ ''.'' @ sc @ ''.'' @ rl @ '' LIMIT 100;''"
    by (simp add: previewQuery_def toString_def numRowsInPreview_def del: numToString.simps)
  show "describeQuery (Some d) (Some sc) (Some rl) = ''DESCRIBE TABLE '' @ d @ ''.'' @ sc @ ''.'' @ rl @ '';''"
    by (simp add: describeQuery_def toString_def)
  show "countQuery (Some d) (Some sc) (Some rl) = ''SELECT COUNT(*) AS CNT FROM '' @ d @ ''.'' @ sc @ ''.'' @ rl @ '';''"
    by (simp add: countQuery_def toString_def)
qed

lemma preview_valid_pre:
  assumes "truthy (b ''account'')" "truthy (b ''username'')" "truthy (b ''password'')"
      and "truthy (b ''database'')" "truthy (b ''schema'')" "truthy (b ''relation'')"
  shows "sends (configCheck b)
           @ map Send (take 1 (previewValidation (b ''database'') (b ''schema'') (b ''relation''))) = []"
  using assms
  by (simp add: sends_def configCheck_def validateSnowflakeConnectionParams_def previewValidation_def)

lemma scripted_simps:
  "createConnection (scripted c t) p w = (Inr 1, w)"
  "connect (scripted c t) h w = (c, w)"
  "execute (scripted c t) h q (x # w) = (x, w)"
  "execute (scripted c t) h q [] = (Inl ''no more results'', [])"
  "getId (scripted c t) h w = ''123''"
  "resendThrows (scripted c t) = t"
  "typeErrorMessage (scripted c t) = ''Cannot read properties of undefined (reading 'CNT')''"
  by (simp_all add: scripted_def)

lemma previewBody_simps:
  "previewBody ''account'' = Some ''acct1''" "previewBody ''username'' = Some ''u''"
  "previewBody ''password'' = Some ''p''" "previewBody ''database'' = Some ''DB''"
  "previewBody ''schema'' = Some ''SC''" "previewBody ''relation'' = Some ''T''"
  "previewBody ''role'' = None" "previewBody ''warehouse'' = None"
  by (simp_all add: previewBody_def credentials_def)

section \<open>The connection check\<close>

text \<open>
  C1. The connection check returns the error object \<open>{status: "unsuccessful", reason:
  "invalid <field>"}\<close> of the first of \<open>account\<close>, \<open>username\<close>, \<open>password\<close>, in this order,
  that is falsy, whatever the other fields are, and returns nothing when all three are
  present. In each of the three handlers that object, when there is one, is the first
  thing the handler sends.
\<close>

theorem connection_check_names_first_missing:
  fixes E :: "('h, 'w, 'stmt, 'v) env"
  shows
  "(validateSnowflakeConnectionParams a u p :: ('stmt, 'v) obj option)
     = map_option invalidField (firstMissing [(''account'', a), (''username'', u), (''password'', p)])
   \<and> (truthy a \<and> truthy u \<and> truthy p \<longrightarrow>
        (validateSnowflakeConnectionParams a u p :: ('stmt, 'v) obj option) = None)
   \<and> (\<forall>r. configCheck b = Some r \<longrightarrow>
         (\<exists>rest. trace (snd (post_root E b (start w))) = Send r # rest)
       \<and> (\<exists>rest. trace (snd (post_query E b (start w))) = Send r # rest)
       \<and> (\<exists>rest. trace (snd (post_relation_preview E b (start w))) = Send r # rest))"
proof -
  have v: "(validateSnowflakeConnectionParams a u p :: ('stmt, 'v) obj option)
     = map_option invalidField (firstMissing [(''account'', a), (''username'', u), (''password'', p)])"
    by (simp add: validateSnowflakeConnectionParams_def firstMissing_def invalidField_def)
  have n: "truthy a \<and> truthy u \<and> truthy p \<longrightarrow>
      (validateSnowflakeConnectionParams a u p :: ('stmt, 'v) obj option) = None"
    by (simp add: validateSnowflakeConnectionParams_def)
  have h: "(\<exists>rest. trace (snd (post_root E b (start w))) = Send r # rest)
       \<and> (\<exists>rest. trace (snd (post_query E b (start w))) = Send r # rest)
       \<and> (\<exists>rest. trace (snd (post_relation_preview E b (start w))) = Send r # rest)"
    if r: "configCheck b = Some r" for r
  proof -
    have "\<exists>rest. trace (snd (post_root E b (start w))) = Send r # rest"
      using root_prefix [of E b w] r by (auto simp add: sends_def)
    moreover have "\<exists>rest. trace (snd (post_query E b (start w))) = Send r # rest"
      using query_prefix [of E b w] r by (auto simp add: sends_def)
    moreover have "\<exists>rest. trace (snd (post_relation_preview E b (start w))) = Send r # rest"
      using preview_prefix [of E b w] r by (auto simp add: sends_def)
    ultimately show ?thesis by blast
  qed
  show ?thesis using v n h by blast
qed

theorem connection_check_names_first_missing_witness:
  "validateSnowflakeConnectionParams (Some ''acct1'') None (Some [])
      = Some [(''status'', Str ''unsuccessful''), (''reason'', Str ''invalid username'') :: string \<times> (nat, int) jsval]
   \<and> truthy (Some ''acct1'') \<and> truthy (Some ''u'') \<and> truthy (Some ''p'')
   \<and> validateSnowflakeConnectionParams (Some ''acct1'') (Some ''u'') (Some ''p'')
      = (None :: (nat, int) obj option)
   \<and> configCheck (credentials(''username'' := None, ''password'' \<mapsto> []))
      = Some [(''status'', Str ''unsuccessful''), (''reason'', Str ''invalid username'') :: string \<times> (nat, int) jsval]
   \<and> (\<exists>rest. trace (snd (post_query (scripted None True)
                  (credentials(''username'' := None, ''password'' \<mapsto> [])) (start [])))
        = Send [(''status'', Str ''unsuccessful''), (''reason'', Str ''invalid username'')] # rest)"
proof -
  have c: "configCheck (credentials(''username'' := None, ''password'' \<mapsto> []))
      = Some [(''status'', Str ''unsuccessful''), (''reason'', Str ''invalid username'') :: string \<times> (nat, int) jsval]"
    by (simp add: configCheck_def validateSnowflakeConnectionParams_def credentials_def truthy_def)
  have f: "map_option invalidField
             (firstMissing [(''account'', Some ''acct1''), (''username'', None), (''password'', Some [])])
      = Some [(''status'', Str ''unsuccessful''), (''reason'', Str ''invalid username'') :: string \<times> (nat, int) jsval]"
    by (simp add: firstMissing_def invalidField_def truthy_def)
  have t: "truthy (Some ''acct1'') \<and> truthy (Some ''u'') \<and> truthy (Some ''p'')"
    by (simp add: truthy_def)
  have a: "validateSnowflakeConnectionParams (Some ''acct1'') None (Some [])
      = Some [(''status'', Str ''unsuccessful''), (''reason'', Str ''invalid username'') :: string \<times> (nat, int) jsval]"
    using connection_check_names_first_missing
      [of "Some ''acct1''" None "Some []" credentials "scripted None True" "[]"] f by simp
  have b: "validateSnowflakeConnectionParams (Some ''acct1'') (Some ''u'') (Some ''p'')
      = (None :: (nat, int) obj option)"
    using connection_check_names_first_missing
      [of "Some ''acct1''" "Some ''u''" "Some ''p''" credentials "scripted None True" "[]"] t by blast
  have d: "\<exists>rest. trace (snd (post_query (scripted None True)
                  (credentials(''username'' := None, ''password'' \<mapsto> [])) (start [])))
        = Send [(''status'', Str ''unsuccessful''), (''reason'', Str ''invalid username'')] # rest"
    using connection_check_names_first_missing
      [of None None None "credentials(''username'' := None, ''password'' \<mapsto> [])" "scripted None True" "[]"] c
    by blast
  show ?thesis using a b c d t by blast
qed

section \<open>Failures of the driver in \<open>/query\<close>\<close>

text \<open>
  C2. In \<open>/query\<close>, when the connect step or the execute step fails with the message
  \<open>m\<close>, the handler logs and sends exactly \<open>{status: "unsuccessful", reason: "Error
  executing Snowflake query: " + m}\<close> and that is the end of the run: nothing follows
  the response, so no driver call follows the failure, and the handler returns. The
  premise \<open>reached\<close> says that the run got as far as the driver; \<open>pre\<close> are the validation
  responses sent before, none for a valid request. Only when such a response went
  before and a second write throws does the \<open>res.send\<close> of the \<open>catch\<close> clause throw
  instead of returning.
\<close>

theorem query_failure_short_circuits:
  fixes E :: "('h, 'w, 'stmt, 'v) env"
  assumes cc: "createConnection E (paramsOf b) w = (Inr h, w1)"
      and co: "connect E h w1 = (c, w2)"
      and ex: "execute E h (b ''query'') w2 = (x, w3)"
      and fail: "c = Some m \<or> (c = None \<and> x = Inl m)"
      and reached: "list_ex isDriverCall (trace (snd (post_query E b (start w))))"
  shows "\<exists>pre. list_all isSend pre
      \<and> trace (snd (post_query E b (start w)))
          = pre @ [CreateConnection (paramsOf b), Connect h]
              @ (if c = None then [Execute h (b ''query'')] else [])
              @ [ConsoleError (''Error executing Snowflake query: '' @ m),
                 Send [(''status'', Str ''unsuccessful''),
                       (''reason'', Str (''Error executing Snowflake query: '' @ m))]]
      \<and> (pre = [] \<or> \<not> resendThrows E \<longrightarrow> fst (post_query E b (start w)) = Inr ())
      \<and> (truthy (b ''account'') \<and> truthy (b ''username'') \<and> truthy (b ''password'')
           \<and> truthy (b ''query'') \<longrightarrow> pre = [])"
proof -
  define pre :: "('h, 'stmt, 'v) event list"
    where "pre = sends (configCheck b) @ sends (queryValidation (b ''query''))"
  note run = query_run [OF cc co ex pre_def]
  have all: "list_all isSend pre" by (simp add: pre_def sends_all)
  have nd: "\<not> list_ex isDriverCall pre"
    by (simp add: pre_def sends_def split: option.splits)
  have nb: "\<not> (resendThrows E \<and> length pre = 2)"
    using reached nd by (auto simp add: run)
  have valid: "truthy (b ''account'') \<and> truthy (b ''username'') \<and> truthy (b ''password'')
           \<and> truthy (b ''query'') \<longrightarrow> pre = []"
    by (simp add: pre_def queryValidation_def sends_def configCheck_def
          validateSnowflakeConnectionParams_def)
  have tr: "trace (snd (post_query E b (start w)))
          = pre @ [CreateConnection (paramsOf b), Connect h]
              @ (if c = None then [Execute h (b ''query'')] else [])
              @ [ConsoleError (''Error executing Snowflake query: '' @ m),
                 Send [(''status'', Str ''unsuccessful''),
                       (''reason'', Str (''Error executing Snowflake query: '' @ m))]]"
    using fail nb by (auto simp add: run errorTail_def unsuccessful_def)
  have out: "pre = [] \<or> \<not> resendThrows E \<longrightarrow> fst (post_query E b (start w)) = Inr ()"
    using nb by (auto simp add: run)
  show ?thesis using all tr out valid by blast
qed

theorem query_failure_short_circuits_witness:
  "post_query (scripted None True) queryBody (start [Inl ''syntax error'', Inr (0, [])])
     = (Inr (),
        \<lparr>trace = [CreateConnection [(''account'', Some ''acct1''), (''username'', Some ''u''), (''password'', Some ''p'')],
                  Connect 1, Execute 1 (Some ''SELEC 1;''),
                  ConsoleError ''Error executing Snowflake query: syntax error'',
                  Send [(''status'', Str ''unsuccessful''),
                        (''reason'', Str ''Error executing Snowflake query: syntax error'')]],
         driver = [Inr (0, [])]\<rparr>)
  \<and> (\<exists>pre. list_all isSend pre
      \<and> trace (snd (post_query (scripted None True) queryBody (start [Inl ''syntax error'', Inr (0, [])])))
          = pre @ [CreateConnection (paramsOf queryBody), Connect 1]
              @ [Execute 1 (queryBody ''query'')]
              @ [ConsoleError (''Error executing Snowflake query: '' @ ''syntax error''),
                 Send [(''status'', Str ''unsuccessful''),
                       (''reason'', Str (''Error executing Snowflake query: '' @ ''syntax error''))]]
      \<and> fst (post_query (scripted None True) queryBody (start [Inl ''syntax error'', Inr (0, [])])) = Inr ()
      \<and> pre = [])"
proof -
  let ?E = "scripted None True"
  let ?w = "[Inl ''syntax error'', Inr (0, [])] :: script"
  have run: "post_query ?E queryBody (start ?w)
     = (Inr (),
        \<lparr>trace = [CreateConnection [(''account'', Some ''acct1''), (''username'', Some ''u''), (''password'', Some ''p'')],
                  Connect 1, Execute 1 (Some ''SELEC 1;''),
                  ConsoleError ''Error executing Snowflake query: syntax error'',
                  Send [(''status'', Str ''unsuccessful''),
                        (''reason'', Str ''Error executing Snowflake query: syntax error'')]],
         driver = [Inr (0, [])]\<rparr>)"
    by (simp add: post_query_def Let_def prog_defs scripted_def queryBody_def credentials_def
          validateSnowflakeConnectionParams_def queryValidation_def truthy_def connParams_def)
  have cc: "createConnection ?E (paramsOf queryBody) ?w = (Inr 1, ?w)" by (simp add: scripted_def)
  have co: "connect ?E 1 ?w = (None, ?w)" by (simp add: scripted_def)
  have ex: "execute ?E 1 (queryBody ''query'') ?w = (Inl ''syntax error'', [Inr (0, [])])"
    by (simp add: scripted_def)
  have fail: "(None :: string option) = Some ''syntax error''
       \<or> ((None :: string option) = None \<and> (Inl ''syntax error'' :: string + nat \<times> (string \<Rightarrow> int option) list) = Inl ''syntax error'')" 
    by simp
  have reached: "list_ex isDriverCall (trace (snd (post_query ?E queryBody (start ?w))))"
    by (simp add: run)
  have t: "truthy (queryBody ''account'') \<and> truthy (queryBody ''username'') \<and> truthy (queryBody ''password'')
           \<and> truthy (queryBody ''query'')"
    by (simp add: queryBody_def credentials_def truthy_def)
  show ?thesis
    using query_failure_short_circuits [OF cc co ex fail reached] t run by auto
qed

section \<open>The three statements of a preview\<close>

text \<open>
  C3. For a valid preview request the handler creates one connection, connects, and
  executes on that handle, one after the other, \<open>SELECT * FROM db.schema.relation LIMIT
  100;\<close>, \<open>DESCRIBE TABLE db.schema.relation;\<close> and \<open>SELECT COUNT(*) AS CNT FROM
  db.schema.relation;\<close>, each on the driver state the step before left. A step that
  fails with the message \<open>m\<close> ends the run: the handler logs and sends \<open>{status:
  "unsuccessful", reason: "Error executing Snowflake query: " + m}\<close>, executes nothing
  further and returns. When all three succeed and the count has a row, it sends
  \<open>{status: "successful", preview, columns, rowcount}\<close>.
\<close>

theorem preview_three_statements_in_order:
  fixes E :: "('h, 'w, 'stmt, 'v) env"
  assumes valid: "truthy (b ''account'')" "truthy (b ''username'')" "truthy (b ''password'')"
      and db: "b ''database'' = Some d" "d \<noteq> []"
      and sc: "b ''schema'' = Some sc" "sc \<noteq> []"
      and rl: "b ''relation'' = Some rl" "rl \<noteq> []"
      and q1: "q1 = ''SELECT * FROM '' @ d @ ''.'' @ sc @ ''.'' @ rl @ '' LIMIT 100;''"
      and q2: "q2 = ''DESCRIBE TABLE '' @ d @ ''.'' @ sc @ ''.'' @ rl @ '';''"
      and q3: "q3 = ''SELECT COUNT(*) AS CNT FROM '' @ d @ ''.'' @ sc @ ''.'' @ rl @ '';''"
      and cc: "createConnection E (paramsOf b) w = (Inr h, w1)"
      and co: "connect E h w1 = (c, w2)"
      and e1: "execute E h (Some q1) w2 = (x1, w3)"
      and e2: "execute E h (Some q2) w3 = (x2, w4)"
      and e3: "execute E h (Some q3) w4 = (x3, w5)"
  shows
    "(\<forall>m. c = Some m \<longrightarrow>
        post_relation_preview E b (start w)
          = (Inr (), \<lparr>trace = [CreateConnection (paramsOf b), Connect h]
                         @ errorTail ''Error executing Snowflake query: '' m,
                      driver = w2\<rparr>))
   \<and> (\<forall>m. c = None \<and> x1 = Inl m \<longrightarrow>
        post_relation_preview E b (start w)
          = (Inr (), \<lparr>trace = [CreateConnection (paramsOf b), Connect h, Execute h (Some q1)]
                         @ errorTail ''Error executing Snowflake query: '' m,
                      driver = w3\<rparr>))
   \<and> (\<forall>m r1. c = None \<and> x1 = Inr r1 \<and> x2 = Inl m \<longrightarrow>
        post_relation_preview E b (start w)
          = (Inr (), \<lparr>trace = [CreateConnection (paramsOf b), Connect h, Execute h (Some q1),
                               Execute h (Some q2)]
                         @ errorTail ''Error executing Snowflake query: '' m,
                      driver = w4\<rparr>))
   \<and> (\<forall>m r1 r2. c = None \<and> x1 = Inr r1 \<and> x2 = Inr r2 \<and> x3 = Inl m \<longrightarrow>
        post_relation_preview E b (start w)
          = (Inr (), \<lparr>trace = [CreateConnection (paramsOf b), Connect h, Execute h (Some q1),
                               Execute h (Some q2), Execute h (Some q3)]
                         @ errorTail ''Error executing Snowflake query: '' m,
                      driver = w5\<rparr>))
   \<and> (\<forall>r1 r2 st row rows. c = None \<and> x1 = Inr r1 \<and> x2 = Inr r2 \<and> x3 = Inr (st, row # rows) \<longrightarrow>
        post_relation_preview E b (start w)
          = (Inr (), \<lparr>trace = [CreateConnection (paramsOf b), Connect h, Execute h (Some q1),
                               Execute h (Some q2), Execute h (Some q3),
                               ConsoleDebug ''Successfully queried Snowflake'',
                               Send [(''status'', Str ''successful''),
                                     (''preview'', Obj [(''stmt'', Stmt (fst r1)), (''rows'', Rows (snd r1))]),
                                     (''columns'', Obj [(''stmt'', Stmt (fst r2)), (''rows'', Rows (snd r2))]),
                                     (''rowcount'', case row ''CNT'' of None \<Rightarrow> Undefined | Some n \<Rightarrow> Cell n)]],
                      driver = w5\<rparr>))"
proof -
  have t: "truthy (b ''database'')" "truthy (b ''schema'')" "truthy (b ''relation'')"
    using db sc rl by (simp_all add: truthy_def)
  have pre: "([] :: ('h, 'stmt, 'v) event list) = sends (configCheck b)
           @ map Send (take 1 (previewValidation (b ''database'') (b ''schema'') (b ''relation'')))"
    using preview_valid_pre [OF valid t] by simp
  have e1': "execute E h (Some (previewQuery (b ''database'') (b ''schema'') (b ''relation''))) w2 = (x1, w3)"
    using e1 by (simp add: db sc rl q1 queries_literal)
  have e2': "execute E h (Some (describeQuery (b ''database'') (b ''schema'') (b ''relation''))) w3 = (x2, w4)"
    using e2 by (simp add: db sc rl q2 queries_literal)
  have e3': "execute E h (Some (countQuery (b ''database'') (b ''schema'') (b ''relation''))) w4 = (x3, w5)"
    using e3 by (simp add: db sc rl q3 queries_literal)
  note run = preview_run [OF cc co e1' e2' e3' pre]
  have qs: "previewQuery (b ''database'') (b ''schema'') (b ''relation'') = q1"
     "describeQuery (b ''database'') (b ''schema'') (b ''relation'') = q2"
     "countQuery (b ''database'') (b ''schema'') (b ''relation'') = q3"
    by (simp_all add: db sc rl q1 q2 q3 queries_literal)
  show ?thesis
    unfolding run qs by (simp add: stmtRows_def)
qed

theorem preview_three_statements_in_order_witness:
  "post_relation_preview (scripted None True) previewBody (start previewScript)
     = (Inr (),
        \<lparr>trace = [CreateConnection [(''account'', Some ''acct1''), (''username'', Some ''u''), (''password'', Some ''p'')],
                  Connect 1,
                  Execute 1 (Some ''SELECT * FROM DB.SC.T LIMIT 100;''),
                  Execute 1 (Some ''DESCRIBE TABLE DB.SC.T;''),
                  Execute 1 (Some ''SELECT COUNT(*) AS CNT FROM DB.SC.T;''),
                  ConsoleDebug ''Successfully queried Snowflake'',
                  Send [(''status'', Str ''successful''),
                        (''preview'', Obj [(''stmt'', Stmt 1), (''rows'', Rows [Map.empty, Map.empty])]),
                        (''columns'', Obj [(''stmt'', Stmt 2), (''rows'', Rows [Map.empty, Map.empty, Map.empty])]),
                        (''rowcount'', Cell 5)]],
         driver = []\<rparr>)"
proof -
  let ?E = "scripted None True"
  have valid: "truthy (previewBody ''account'')" "truthy (previewBody ''username'')"
      "truthy (previewBody ''password'')"
    by (simp_all add: previewBody_simps truthy_def)
  have ne: "''DB'' \<noteq> []" "''SC'' \<noteq> []" "''T'' \<noteq> []" by simp_all
  have cc: "createConnection ?E (paramsOf previewBody) previewScript = (Inr 1, previewScript)"
    by (simp add: scripted_simps)
  have co: "connect ?E 1 previewScript = (None, previewScript)"
    by (simp add: scripted_simps)
  have e1: "execute ?E 1 (Some (''SELECT * FROM '' @ ''DB'' @ ''.'' @ ''SC'' @ ''.'' @ ''T'' @ '' LIMIT 100;'')) previewScript
       = (Inr (1, [Map.empty, Map.empty]), tl previewScript)"
    by (simp add: scripted_simps previewScript_def)
  have e2: "execute ?E 1 (Some (''DESCRIBE TABLE '' @ ''DB'' @ ''.'' @ ''SC'' @ ''.'' @ ''T'' @ '';'')) (tl previewScript)
       = (Inr (2, [Map.empty, Map.empty, Map.empty]), tl (tl previewScript))"
    by (simp add: scripted_simps previewScript_def)
  have e3: "execute ?E 1 (Some (''SELECT COUNT(*) AS CNT FROM '' @ ''DB'' @ ''.'' @ ''SC'' @ ''.'' @ ''T'' @ '';'')) (tl (tl previewScript))
       = (Inr (3, [[''CNT'' \<mapsto> 5]]), [])"
    by (simp add: scripted_simps previewScript_def)
  have p: "paramsOf previewBody = [(''account'', Some ''acct1''), (''username'', Some ''u''), (''password'', Some ''p'')]"
    by (simp add: paramsOf_def connParams_def previewBody_simps truthy_def)
  show ?thesis
    using preview_three_statements_in_order
      [OF valid previewBody_simps(4) ne(1) previewBody_simps(5) ne(2) previewBody_simps(6) ne(3)
          refl refl refl cc co e1 e2 e3]
    by (simp add: p)
qed

section \<open>A count without rows\<close>

text \<open>
  C8, as amended. When the count statement of a preview returns no row, reading
  \<open>rows[0].CNT\<close> throws a \<open>TypeError\<close> inside the third \<open>try\<close> block, and the \<open>catch\<close>
  clause handles it like a failure of the driver: the handler logs and sends \<open>{status:
  "unsuccessful", reason: "Error executing Snowflake query: " + message}\<close> with the
  message of the \<open>TypeError\<close>, and returns. The \<open>TypeError\<close> never leaves the handler.
  This holds for every request whose run gets as far as the driver (premise \<open>reached\<close>);
  \<open>pre\<close> are the validation responses sent before, none for a valid request.
\<close>

theorem preview_zero_rows_is_caught:
  fixes E :: "('h, 'w, 'stmt, 'v) env"
  assumes cc: "createConnection E (paramsOf b) w = (Inr h, w1)"
      and co: "connect E h w1 = (None, w2)"
      and e1: "execute E h (Some (previewQuery (b ''database'') (b ''schema'') (b ''relation''))) w2 = (Inr r1, w3)"
      and e2: "execute E h (Some (describeQuery (b ''database'') (b ''schema'') (b ''relation''))) w3 = (Inr r2, w4)"
      and e3: "execute E h (Some (countQuery (b ''database'') (b ''schema'') (b ''relation''))) w4 = (Inr (st, []), w5)"
      and pre: "pre = sends (configCheck b)
             @ map Send (take 1 (previewValidation (b ''database'') (b ''schema'') (b ''relation'')))"
      and reached: "\<not> (resendThrows E \<and> length pre = 2)"
  shows "post_relation_preview E b (start w)
     = (if resendThrows E \<and> pre \<noteq> [] then Inl headersSent else Inr (),
        \<lparr>trace = pre @ [CreateConnection (paramsOf b), Connect h,
                         Execute h (Some (previewQuery (b ''database'') (b ''schema'') (b ''relation''))),
                         Execute h (Some (describeQuery (b ''database'') (b ''schema'') (b ''relation''))),
                         Execute h (Some (countQuery (b ''database'') (b ''schema'') (b ''relation''))),
                         ConsoleError (''Error executing Snowflake query: '' @ typeErrorMessage E),
                         Send [(''status'', Str ''unsuccessful''),
                               (''reason'', Str (''Error executing Snowflake query: '' @ typeErrorMessage E))]],
          driver = w5\<rparr>)
   \<and> fst (post_relation_preview E b (start w)) \<noteq> Inl (TypeError (typeErrorMessage E))"
  using reached
  by (simp add: preview_run [OF cc co e1 e2 e3 pre] errorTail_def unsuccessful_def headersSent_def)

text \<open>
  C8, as stated, fails: with a driver that answers the count with no row, the handler
  does not throw; it returns after sending the error response.
\<close>

theorem preview_zero_rows_counterexample:
  "post_relation_preview (scripted None True) previewBody (start [Inr (1, []), Inr (2, []), Inr (3, [])])
     = (Inr (),
        \<lparr>trace = [CreateConnection [(''account'', Some ''acct1''), (''username'', Some ''u''), (''password'', Some ''p'')],
                  Connect 1,
                  Execute 1 (Some ''SELECT * FROM DB.SC.T LIMIT 100;''),
                  Execute 1 (Some ''DESCRIBE TABLE DB.SC.T;''),
                  Execute 1 (Some ''SELECT COUNT(*) AS CNT FROM DB.SC.T;''),
                  ConsoleError ''Error executing Snowflake query: Cannot read properties of undefined (reading 'CNT')'',
                  Send [(''status'', Str ''unsuccessful''),
                        (''reason'', Str ''Error executing Snowflake query: Cannot read properties of undefined (reading 'CNT')'')]],
         driver = []\<rparr>)
   \<and> fst (post_relation_preview (scripted None True) previewBody (start [Inr (1, []), Inr (2, []), Inr (3, [])]))
       \<noteq> Inl (TypeError ''Cannot read properties of undefined (reading 'CNT')'')"
proof -
  have "numToString 100 = ''100''" by code_simp
  then show ?thesis
    by (simp add: post_relation_preview_def Let_def prog_defs scripted_simps previewBody_simps
        validateSnowflakeConnectionParams_def previewValidation_def truthy_def connParams_def
        previewQuery_def describeQuery_def countQuery_def toString_def numRowsInPreview_def
        del: numToString.simps)
qed

theorem preview_zero_rows_is_caught_witness:
  "post_relation_preview (scripted None True) previewBody (start [Inr (1, []), Inr (2, []), Inr (3, [])])
     = (Inr (),
        \<lparr>trace = [CreateConnection [(''account'', Some ''acct1''), (''username'', Some ''u''), (''password'', Some ''p'')],
                  Connect 1,
                  Execute 1 (Some ''SELECT * FROM DB.SC.T LIMIT 100;''),
                  Execute 1 (Some ''DESCRIBE TABLE DB.SC.T;''),
                  Execute 1 (Some ''SELECT COUNT(*) AS CNT FROM DB.SC.T;''),
                  ConsoleError ''Error executing Snowflake query: Cannot read properties of undefined (reading 'CNT')'',
                  Send [(''status'', Str ''unsuccessful''),
                        (''reason'', Str ''Error executing Snowflake query: Cannot read properties of undefined (reading 'CNT')'')]],
         driver = []\<rparr>)"
proof -
  let ?E = "scripted None True"
  let ?w = "[Inr (1, []), Inr (2, []), Inr (3, [])] :: script"
  have q: "previewQuery (previewBody ''database'') (previewBody ''schema'') (previewBody ''relation'') = ''SELECT * FROM DB.SC.T LIMIT 100;''"
      "describeQuery (previewBody ''database'') (previewBody ''schema'') (previewBody ''relation'') = ''DESCRIBE TABLE DB.SC.T;''"
      "countQuery (previewBody ''database'') (previewBody ''schema'') (previewBody ''relation'') = ''SELECT COUNT(*) AS CNT FROM DB.SC.T;''"
    by (simp_all add: previewBody_simps queries_literal)
  have cc: "createConnection ?E (paramsOf previewBody) ?w = (Inr 1, ?w)"
    by (simp add: scripted_simps)
  have co: "connect ?E 1 ?w = (None, ?w)"
    by (simp add: scripted_simps)
  have e1: "execute ?E 1 (Some (previewQuery (previewBody ''database'') (previewBody ''schema'') (previewBody ''relation''))) ?w
       = (Inr (1, []), [Inr (2, []), Inr (3, [])])"
    by (simp add: scripted_simps)
  have e2: "execute ?E 1 (Some (describeQuery (previewBody ''database'') (previewBody ''schema'') (previewBody ''relation''))) [Inr (2, []), Inr (3, [])]
       = (Inr (2, []), [Inr (3, [])])"
    by (simp add: scripted_simps)
  have e3: "execute ?E 1 (Some (countQuery (previewBody ''database'') (previewBody ''schema'') (previewBody ''relation''))) [Inr (3, [])]
       = (Inr (3, []), [])"
    by (simp add: scripted_simps)
  have pre: "([] :: (nat, nat, int) event list) = sends (configCheck previewBody)
             @ map Send (take 1 (previewValidation (previewBody ''database'') (previewBody ''schema'') (previewBody ''relation'')))"
    by (simp add: sends_def configCheck_def validateSnowflakeConnectionParams_def previewValidation_def
          previewBody_simps truthy_def)
  have reached: "\<not> (resendThrows ?E \<and> length ([] :: (nat, nat, int) event list) = 2)" by simp
  have p: "paramsOf previewBody = [(''account'', Some ''acct1''), (''username'', Some ''u''), (''password'', Some ''p'')]"
    by (simp add: paramsOf_def connParams_def previewBody_simps truthy_def)
  show ?thesis
    using preview_zero_rows_is_caught [OF cc co e1 e2 e3 pre reached]
    by (simp add: p q scripted_simps)
qed

section \<open>The parameter object of the connection\<close>

text \<open>
  C4. The parameter object that \<open>getSnowflakeConnection\<close> hands to the driver always has
  the keys \<open>account\<close>, \<open>username\<close> and \<open>password\<close>, with the values it was given; it has
  the key \<open>role\<close> exactly when the role is truthy and the key \<open>warehouse\<close> exactly when
  the warehouse is truthy, and no other key. An empty-string role or warehouse gives the
  same object as an absent one.
\<close>

theorem connection_params_required_and_optional:
  fixes E :: "('h, 'w, 'stmt, 'v) env"
  shows
  "map_of (connParams a u p r wh) ''account'' = Some a
   \<and> map_of (connParams a u p r wh) ''username'' = Some u
   \<and> map_of (connParams a u p r wh) ''password'' = Some p
   \<and> (''role'' \<in> fst ` set (connParams a u p r wh)) = truthy r
   \<and> (''warehouse'' \<in> fst ` set (connParams a u p r wh)) = truthy wh
   \<and> (truthy r \<longrightarrow> map_of (connParams a u p r wh) ''role'' = Some r)
   \<and> (truthy wh \<longrightarrow> map_of (connParams a u p r wh) ''warehouse'' = Some wh)
   \<and> distinct (map fst (connParams a u p r wh))
   \<and> fst ` set (connParams a u p r wh)
        \<subseteq> {''account'', ''username'', ''password'', ''role'', ''warehouse''}
   \<and> connParams a u p (Some []) wh = connParams a u p None wh
   \<and> connParams a u p r (Some []) = connParams a u p r None
   \<and> getSnowflakeConnection E a u p r wh s
       = (case fst (createConnection E (connParams a u p r wh) (driver s)) of
            Inl m \<Rightarrow> Inl (DriverError m)
          | Inr sfConn \<Rightarrow> Inr sfConn,
          s\<lparr>trace := trace s @ [CreateConnection (connParams a u p r wh)],
            driver := snd (createConnection E (connParams a u p r wh) (driver s))\<rparr>)"
proof -
  have g: "getSnowflakeConnection E a u p r wh s
       = (case fst (createConnection E (connParams a u p r wh) (driver s)) of
            Inl m \<Rightarrow> Inl (DriverError m)
          | Inr sfConn \<Rightarrow> Inr sfConn,
          s\<lparr>trace := trace s @ [CreateConnection (connParams a u p r wh)],
            driver := snd (createConnection E (connParams a u p r wh) (driver s))\<rparr>)"
    by (simp add: getSnowflakeConnection_def Let_def split: prod.splits sum.splits)
  have rest: "map_of (connParams a u p r wh) ''account'' = Some a
   \<and> map_of (connParams a u p r wh) ''username'' = Some u
   \<and> map_of (connParams a u p r wh) ''password'' = Some p
   \<and> (''role'' \<in> fst ` set (connParams a u p r wh)) = truthy r
   \<and> (''warehouse'' \<in> fst ` set (connParams a u p r wh)) = truthy wh
   \<and> (truthy r \<longrightarrow> map_of (connParams a u p r wh) ''role'' = Some r)
   \<and> (truthy wh \<longrightarrow> map_of (connParams a u p r wh) ''warehouse'' = Some wh)
   \<and> distinct (map fst (connParams a u p r wh))
   \<and> fst ` set (connParams a u p r wh)
        \<subseteq> {''account'', ''username'', ''password'', ''role'', ''warehouse''}"
    by (cases "truthy r"; cases "truthy wh") (simp_all add: connParams_def Let_def)
  have e: "connParams a u p (Some []) wh = connParams a u p None wh"
     "connParams a u p r (Some []) = connParams a u p r None"
    by (simp_all add: connParams_def Let_def truthy_def)
  show ?thesis using g rest e by blast
qed

theorem connection_params_required_and_optional_witness:
  "truthy (Some ''SYSADMIN'')
   \<and> map_of (connParams (Some ''acct1'') (Some ''u'') (Some ''p'') (Some ''SYSADMIN'') (Some [])) ''role''
       = Some (Some ''SYSADMIN'')
   \<and> connParams (Some ''acct1'') (Some ''u'') (Some ''p'') (Some ''SYSADMIN'') (Some [])
       = connParams (Some ''acct1'') (Some ''u'') (Some ''p'') (Some ''SYSADMIN'') None
   \<and> ''warehouse'' \<notin> fst ` set (connParams (Some ''acct1'') (Some ''u'') (Some ''p'') (Some ''SYSADMIN'') (Some []))"
proof -
  have t: "truthy (Some ''SYSADMIN'')" "\<not> truthy (Some [])" by (simp_all add: truthy_def)
  show ?thesis
    using connection_params_required_and_optional
      [of "Some ''acct1''" "Some ''u''" "Some ''p''" "Some ''SYSADMIN''" "Some []" "scripted None True" "start []"] t
    by blast
qed

section \<open>Validation failures in \<open>/query\<close> and \<open>/relation-preview\<close>\<close>

text \<open>
  C5 does not hold of the code: neither handler returns after it has sent a validation
  error. A \<open>/query\<close> request with the credentials and no query text is answered with
  \<open>A query must be provided\<close>, and the handler still creates the connection, connects
  and executes the absent text; a preview request with no database is answered with
  \<open>A database must be provided\<close>, and the handler still creates the connection, connects
  and executes a statement on \<open>undefined.SC.T\<close>. In both runs the second \<open>res.send\<close>
  throws.
\<close>

theorem query_and_preview_go_on_after_validation_failure:
  "post_query (scripted None True) credentials (start [Inr (0, [])])
     = (Inl headersSent,
        \<lparr>trace = [Send [(''status'', Str ''unsuccessful''), (''reason'', Str ''A query must be provided'')],
                  CreateConnection [(''account'', Some ''acct1''), (''username'', Some ''u''), (''password'', Some ''p'')],
                  Connect 1, Execute 1 None,
                  ConsoleDebug ''Successfully queried Snowflake'',
                  Send [(''status'', Str ''successful''),
                        (''response'', Obj [(''stmt'', Stmt 0), (''rows'', Rows [])])]],
         driver = []\<rparr>)
   \<and> post_relation_preview (scripted None True) (previewBody(''database'' := None))
        (start [Inl ''Database UNDEFINED does not exist''])
     = (Inl headersSent,
        \<lparr>trace = [Send [(''status'', Str ''unsuccessful''), (''reason'', Str ''A database must be provided'')],
                  CreateConnection [(''account'', Some ''acct1''), (''username'', Some ''u''), (''password'', Some ''p'')],
                  Connect 1,
                  Execute 1 (Some ''SELECT * FROM undefined.SC.T LIMIT 100;''),
                  ConsoleError ''Error executing Snowflake query: Database UNDEFINED does not exist'',
                  Send [(''status'', Str ''unsuccessful''),
                        (''reason'', Str ''Error executing Snowflake query: Database UNDEFINED does not exist'')]],
         driver = []\<rparr>)"
proof -
  have a: "post_query (scripted None True) credentials (start [Inr (0, [])])
     = (Inl headersSent,
        \<lparr>trace = [Send [(''status'', Str ''unsuccessful''), (''reason'', Str ''A query must be provided'')],
                  CreateConnection [(''account'', Some ''acct1''), (''username'', Some ''u''), (''password'', Some ''p'')],
                  Connect 1, Execute 1 None,
                  ConsoleDebug ''Successfully queried Snowflake'',
                  Send [(''status'', Str ''successful''),
                        (''response'', Obj [(''stmt'', Stmt 0), (''rows'', Rows [])])]],
         driver = []\<rparr>)"
    by (simp add: post_query_def Let_def prog_defs scripted_simps credentials_def
        validateSnowflakeConnectionParams_def queryValidation_def truthy_def connParams_def stmtRows_def)
  have n: "numToString 100 = ''100''" by code_simp
  have b: "post_relation_preview (scripted None True) (previewBody(''database'' := None))
        (start [Inl ''Database UNDEFINED does not exist''])
     = (Inl headersSent,
        \<lparr>trace = [Send [(''status'', Str ''unsuccessful''), (''reason'', Str ''A database must be provided'')],
                  CreateConnection [(''account'', Some ''acct1''), (''username'', Some ''u''), (''password'', Some ''p'')],
                  Connect 1,
                  Execute 1 (Some ''SELECT * FROM undefined.SC.T LIMIT 100;''),
                  ConsoleError ''Error executing Snowflake query: Database UNDEFINED does not exist'',
                  Send [(''status'', Str ''unsuccessful''),
                        (''reason'', Str ''Error executing Snowflake query: Database UNDEFINED does not exist'')]],
         driver = []\<rparr>)"
    using n
    by (simp add: post_relation_preview_def Let_def prog_defs scripted_simps previewBody_simps
        validateSnowflakeConnectionParams_def previewValidation_def truthy_def connParams_def
        previewQuery_def toString_def numRowsInPreview_def del: numToString.simps)
  show ?thesis using a b by blast
qed

section \<open>The open-connection handler does not stop\<close>

text \<open>
  C6, as amended. When a required field of a request to \<open>/\<close> is missing, the handler
  sends the validation error of the first missing field and does not stop: it goes on
  to call \<open>createConnection\<close> with the fields as they are. When the driver throws
  there, the handler ends with that exception: there is no connect and no second
  response. When the driver returns a handle, the handler calls \<open>connect\<close> all the same
  and calls \<open>res.send\<close> a second time, in the \<open>catch\<close> clause when the connect fails and
  at the end when it succeeds; where a second write throws, the handler throws, and
  where it does not, the second response (and after a failed connect a third) is
  written over the first.
\<close>

theorem root_goes_on_after_validation_failure:
  fixes E :: "('h, 'w, 'stmt, 'v) env"
  assumes missing: "\<not> (truthy (b ''account'') \<and> truthy (b ''username'') \<and> truthy (b ''password''))"
  shows "\<exists>n. firstMissing [(''account'', b ''account''), (''username'', b ''username''),
                            (''password'', b ''password'')] = Some n
     \<and> (\<forall>m w1. createConnection E (paramsOf b) w = (Inl m, w1) \<longrightarrow>
          post_root E b (start w)
            = (Inl (DriverError m),
               \<lparr>trace = [Send [(''status'', Str ''unsuccessful''), (''reason'', Str (''invalid '' @ n))],
                         CreateConnection (paramsOf b)],
                 driver = w1\<rparr>))
     \<and> (\<forall>h w1 c w2. createConnection E (paramsOf b) w = (Inr h, w1) \<and> connect E h w1 = (c, w2) \<longrightarrow>
          post_root E b (start w)
            = (if resendThrows E then Inl headersSent else Inr (),
               \<lparr>trace = [Send [(''status'', Str ''unsuccessful''), (''reason'', Str (''invalid '' @ n))],
                         CreateConnection (paramsOf b), Connect h]
                    @ (case c of
                         None \<Rightarrow> [ConsoleDebug ''Successfully connected to Snowflake'', GetId h,
                                  Send [(''status'', Str ''successful''),
                                        (''connectionId'', Str (getId E h w2))]]
                       | Some m \<Rightarrow>
                           [ConsoleError (''Error connecting to Snowflake: '' @ m),
                            Send [(''status'', Str ''unsuccessful''),
                                  (''reason'', Str (''Error connecting to Snowflake: '' @ m))]]
                           @ (if resendThrows E then []
                              else [ConsoleDebug ''Successfully connected to Snowflake'', GetId h,
                                    Send [(''status'', Str ''successful''),
                                          (''connectionId'', Str (getId E h w2))]])),
                 driver = w2\<rparr>))"
proof -
  obtain n where n: "firstMissing [(''account'', b ''account''), (''username'', b ''username''),
                            (''password'', b ''password'')] = Some n"
      and v: "configCheck b = Some (invalidField n :: ('stmt, 'v) obj)"
    using sends_invalid [OF missing] by blast
  have pre: "[Send (invalidField n)] = (sends (configCheck b) :: ('h, 'stmt, 'v) event list)"
    by (simp add: sends_def v)
  have refused: "post_root E b (start w)
            = (Inl (DriverError m),
               \<lparr>trace = [Send [(''status'', Str ''unsuccessful''), (''reason'', Str (''invalid '' @ n))],
                         CreateConnection (paramsOf b)],
                 driver = w1\<rparr>)"
    if cc: "createConnection E (paramsOf b) w = (Inl m, w1)" for m w1
    by (simp add: root_run_refused [OF cc pre] invalidField_def)
  have built: "post_root E b (start w)
            = (if resendThrows E then Inl headersSent else Inr (),
               \<lparr>trace = [Send [(''status'', Str ''unsuccessful''), (''reason'', Str (''invalid '' @ n))],
                         CreateConnection (paramsOf b), Connect h]
                    @ (case c of
                         None \<Rightarrow> [ConsoleDebug ''Successfully connected to Snowflake'', GetId h,
                                  Send [(''status'', Str ''successful''),
                                        (''connectionId'', Str (getId E h w2))]]
                       | Some m \<Rightarrow>
                           [ConsoleError (''Error connecting to Snowflake: '' @ m),
                            Send [(''status'', Str ''unsuccessful''),
                                  (''reason'', Str (''Error connecting to Snowflake: '' @ m))]]
                           @ (if resendThrows E then []
                              else [ConsoleDebug ''Successfully connected to Snowflake'', GetId h,
                                    Send [(''status'', Str ''successful''),
                                          (''connectionId'', Str (getId E h w2))]])),
                 driver = w2\<rparr>)"
    if cc: "createConnection E (paramsOf b) w = (Inr h, w1)" and co: "connect E h w1 = (c, w2)"
    for h w1 c w2
    by (cases c) (simp_all add: root_run [OF cc co pre] invalidField_def errorTail_def unsuccessful_def)
  show ?thesis using n refused built by blast
qed

text \<open>
  C6, as stated, fails: with a driver that refuses to build a connection without a
  password, a request without a password gets the validation error, and then the
  handler ends when \<open>createConnection\<close> throws. It does not attempt the connect step and
  does not call \<open>res.send\<close> again.
\<close>

theorem root_stops_when_driver_refuses_counterexample:
  "post_root (guarded None True) (credentials(''password'' := None)) (start [])
     = (Inl (DriverError ''A password must be specified.''),
        \<lparr>trace = [Send [(''status'', Str ''unsuccessful''), (''reason'', Str ''invalid password'')],
                  CreateConnection [(''account'', Some ''acct1''), (''username'', Some ''u''),
                                    (''password'', None)]],
         driver = []\<rparr>)
   \<and> Connect 1 \<notin> set (trace (snd (post_root (guarded None True)
                                       (credentials(''password'' := None)) (start []))))
   \<and> length (filter isSend (trace (snd (post_root (guarded None True)
                                       (credentials(''password'' := None)) (start []))))) = 1"
proof -
  have run: "post_root (guarded None True) (credentials(''password'' := None)) (start [])
     = (Inl (DriverError ''A password must be specified.''),
        \<lparr>trace = [Send [(''status'', Str ''unsuccessful''), (''reason'', Str ''invalid password'')],
                  CreateConnection [(''account'', Some ''acct1''), (''username'', Some ''u''),
                                    (''password'', None)]],
         driver = []\<rparr>)"
    by (simp add: post_root_def Let_def prog_defs guarded_def scripted_def absent_def credentials_def
        validateSnowflakeConnectionParams_def truthy_def connParams_def)
  show ?thesis unfolding run by simp
qed

theorem root_goes_on_after_validation_failure_witness:
  "post_root (scripted None True) (credentials(''password'' \<mapsto> [])) (start [])
       = (Inl headersSent,
          \<lparr>trace = [Send [(''status'', Str ''unsuccessful''), (''reason'', Str ''invalid password'')],
                    CreateConnection [(''account'', Some ''acct1''), (''username'', Some ''u''), (''password'', Some [])],
                    Connect 1,
                    ConsoleDebug ''Successfully connected to Snowflake'', GetId 1,
                    Send [(''status'', Str ''successful''), (''connectionId'', Str ''123'')]],
            driver = []\<rparr>)
   \<and> post_root (guarded None True) (credentials(''username'' := None)) (start [])
       = (Inl (DriverError ''A user name must be specified.''),
          \<lparr>trace = [Send [(''status'', Str ''unsuccessful''), (''reason'', Str ''invalid username'')],
                    CreateConnection [(''account'', Some ''acct1''), (''username'', None), (''password'', Some ''p'')]],
            driver = []\<rparr>)"
proof -
  let ?b = "credentials(''password'' \<mapsto> [])"
  let ?E = "scripted None True"
  have missing: "\<not> (truthy (?b ''account'') \<and> truthy (?b ''username'') \<and> truthy (?b ''password''))"
    by (simp add: truthy_def)
  have cc: "createConnection ?E (paramsOf ?b) [] = (Inr 1, [])" by (simp add: scripted_simps)
  have co: "connect ?E 1 [] = (None, [])" by (simp add: scripted_simps)
  have f: "firstMissing [(''account'', ?b ''account''), (''username'', ?b ''username''),
                            (''password'', ?b ''password'')] = Some ''password''"
    by (simp add: firstMissing_def credentials_def truthy_def)
  have p: "paramsOf ?b = [(''account'', Some ''acct1''), (''username'', Some ''u''), (''password'', Some [])]"
    by (simp add: paramsOf_def connParams_def credentials_def truthy_def)
  obtain n where n: "firstMissing [(''account'', ?b ''account''), (''username'', ?b ''username''),
                            (''password'', ?b ''password'')] = Some n"
    and built: "\<forall>h w1 c w2. createConnection ?E (paramsOf ?b) [] = (Inr h, w1) \<and> connect ?E h w1 = (c, w2) \<longrightarrow>
          post_root ?E ?b (start [])
            = (if resendThrows ?E then Inl headersSent else Inr (),
               \<lparr>trace = [Send [(''status'', Str ''unsuccessful''), (''reason'', Str (''invalid '' @ n))],
                         CreateConnection (paramsOf ?b), Connect h]
                    @ (case c of
                         None \<Rightarrow> [ConsoleDebug ''Successfully connected to Snowflake'', GetId h,
                                  Send [(''status'', Str ''successful''),
                                        (''connectionId'', Str (getId ?E h w2))]]
                       | Some m \<Rightarrow>
                           [ConsoleError (''Error connecting to Snowflake: '' @ m),
                            Send [(''status'', Str ''unsuccessful''),
                                  (''reason'', Str (''Error connecting to Snowflake: '' @ m))]]
                           @ (if resendThrows ?E then []
                              else [ConsoleDebug ''Successfully connected to Snowflake'', GetId h,
                                    Send [(''status'', Str ''successful''),
                                          (''connectionId'', Str (getId ?E h w2))]])),
                 driver = w2\<rparr>)"
    using root_goes_on_after_validation_failure [OF missing, of ?E "[]"] by blast
  have n': "n = ''password''" using n f by simp
  have one: "post_root ?E ?b (start [])
       = (Inl headersSent,
          \<lparr>trace = [Send [(''status'', Str ''unsuccessful''), (''reason'', Str ''invalid password'')],
                    CreateConnection [(''account'', Some ''acct1''), (''username'', Some ''u''), (''password'', Some [])],
                    Connect 1,
                    ConsoleDebug ''Successfully connected to Snowflake'', GetId 1,
                    Send [(''status'', Str ''successful''), (''connectionId'', Str ''123'')]],
            driver = []\<rparr>)"
    using built [rule_format, OF conjI [OF cc co]] by (simp add: n' p scripted_simps)
  let ?b2 = "credentials(''username'' := None)"
  let ?E2 = "guarded None True"
  have missing2: "\<not> (truthy (?b2 ''account'') \<and> truthy (?b2 ''username'') \<and> truthy (?b2 ''password''))"
    by (simp add: truthy_def)
  have p2: "paramsOf ?b2 = [(''account'', Some ''acct1''), (''username'', None), (''password'', Some ''p'')]"
    by (simp add: paramsOf_def connParams_def credentials_def truthy_def)
  have cc2: "createConnection ?E2 (paramsOf ?b2) [] = (Inl ''A user name must be specified.'', [])"
    by (simp add: p2 guarded_def scripted_def absent_def)
  have f2: "firstMissing [(''account'', ?b2 ''account''), (''username'', ?b2 ''username''),
                            (''password'', ?b2 ''password'')] = Some ''username''"
    by (simp add: firstMissing_def credentials_def truthy_def)
  obtain k where k: "firstMissing [(''account'', ?b2 ''account''), (''username'', ?b2 ''username''),
                            (''password'', ?b2 ''password'')] = Some k"
    and refused: "\<forall>m w1. createConnection ?E2 (paramsOf ?b2) [] = (Inl m, w1) \<longrightarrow>
          post_root ?E2 ?b2 (start [])
            = (Inl (DriverError m),
               \<lparr>trace = [Send [(''status'', Str ''unsuccessful''), (''reason'', Str (''invalid '' @ k))],
                         CreateConnection (paramsOf ?b2)],
                 driver = w1\<rparr>)"
    using root_goes_on_after_validation_failure [OF missing2, of ?E2 "[]"] by blast
  have k': "k = ''username''" using k f2 by simp
  have two: "post_root ?E2 ?b2 (start [])
       = (Inl (DriverError ''A user name must be specified.''),
          \<lparr>trace = [Send [(''status'', Str ''unsuccessful''), (''reason'', Str ''invalid username'')],
                    CreateConnection [(''account'', Some ''acct1''), (''username'', None), (''password'', Some ''p'')]],
            driver = []\<rparr>)"
    using refused [rule_format, OF cc2] by (simp add: k' p2)
  show ?thesis using one two by (rule conjI)
qed

text \<open>
  C9. When the connect of a request to \<open>/\<close> fails with the message \<open>m\<close> and the error
  response \<open>{status: "unsuccessful", reason: "Error connecting to Snowflake: " + m}\<close> is
  sent (premise \<open>sent\<close>: nothing was written before, or a second write does not throw),
  the handler falls through: it logs the success line, calls \<open>getId\<close> on the handle and
  calls \<open>res.send\<close> again with \<open>{status: "successful", connectionId}\<close>.
\<close>

theorem root_goes_on_after_connect_failure:
  fixes E :: "('h, 'w, 'stmt, 'v) env"
  assumes cc: "createConnection E (paramsOf b) w = (Inr h, w1)"
      and co: "connect E h w1 = (Some m, w2)"
      and pre: "pre = sends (configCheck b)"
      and sent: "pre = [] \<or> \<not> resendThrows E"
  shows "post_root E b (start w)
       = (if resendThrows E then Inl headersSent else Inr (),
          \<lparr>trace = pre @ [CreateConnection (paramsOf b), Connect h,
                    ConsoleError (''Error connecting to Snowflake: '' @ m),
                    Send [(''status'', Str ''unsuccessful''),
                          (''reason'', Str (''Error connecting to Snowflake: '' @ m))],
                    ConsoleDebug ''Successfully connected to Snowflake'',
                    GetId h,
                    Send [(''status'', Str ''successful''), (''connectionId'', Str (getId E h w2))]],
            driver = w2\<rparr>)
     \<and> (truthy (b ''account'') \<and> truthy (b ''username'') \<and> truthy (b ''password'') \<longrightarrow> pre = [])"
proof -
  have "truthy (b ''account'') \<and> truthy (b ''username'') \<and> truthy (b ''password'') \<longrightarrow> pre = []"
    by (simp add: pre sends_def configCheck_def validateSnowflakeConnectionParams_def)
  then show ?thesis
    using sent by (auto simp add: root_run [OF cc co pre] errorTail_def unsuccessful_def)
qed

theorem root_goes_on_after_connect_failure_witness:
  "post_root (scripted (Some ''Incorrect username or password was specified.'') True) credentials (start [])
       = (Inl headersSent,
          \<lparr>trace = [CreateConnection [(''account'', Some ''acct1''), (''username'', Some ''u''), (''password'', Some ''p'')],
                    Connect 1,
                    ConsoleError ''Error connecting to Snowflake: Incorrect username or password was specified.'',
                    Send [(''status'', Str ''unsuccessful''),
                          (''reason'', Str ''Error connecting to Snowflake: Incorrect username or password was specified.'')],
                    ConsoleDebug ''Successfully connected to Snowflake'',
                    GetId 1,
                    Send [(''status'', Str ''successful''), (''connectionId'', Str ''123'')]],
            driver = []\<rparr>)"
proof -
  let ?E = "scripted (Some ''Incorrect username or password was specified.'') True"
  have cc: "createConnection ?E (paramsOf credentials) [] = (Inr 1, [])" by (simp add: scripted_simps)
  have co: "connect ?E 1 [] = (Some ''Incorrect username or password was specified.'', [])"
    by (simp add: scripted_simps)
  have pre: "([] :: (nat, nat, int) event list) = sends (configCheck credentials)"
    by (simp add: sends_def configCheck_def validateSnowflakeConnectionParams_def credentials_def truthy_def)
  have sent: "([] :: (nat, nat, int) event list) = [] \<or> \<not> resendThrows ?E" by simp
  have p: "paramsOf credentials = [(''account'', Some ''acct1''), (''username'', Some ''u''), (''password'', Some ''p'')]"
    by (simp add: paramsOf_def connParams_def credentials_def truthy_def)
  show ?thesis
    using root_goes_on_after_connect_failure [OF cc co pre sent]
    by (simp add: p scripted_simps)
qed

section \<open>The preview check\<close>

text \<open>
  C7. The preview check looks at \<open>database\<close>, \<open>schema\<close>, \<open>relation\<close> in this order and
  builds the list of the error objects of all that are missing, in this order, with
  nothing for a field that is present. The handler sends only the first entry of the
  list: after the response of the connection check, if there is one, it sends at most
  one preview error, and for a request with good credentials the one response sent
  before the driver is called is \<open>A <field> must be provided\<close> for the first missing
  field.
\<close>

theorem preview_check_surfaces_first_failure:
  fixes E :: "('h, 'w, 'stmt, 'v) env"
  shows
  "(previewValidation d sc rl :: ('stmt, 'v) obj list)
      = map mustBeProvided (allMissing [(''database'', d), (''schema'', sc), (''relation'', rl)])
   \<and> takeWhile isSend (trace (snd (post_relation_preview E b (start w))))
      = sends (configCheck b)
        @ map Send (take 1 (previewValidation (b ''database'') (b ''schema'') (b ''relation'')))
   \<and> (\<forall>n. truthy (b ''account'') \<and> truthy (b ''username'') \<and> truthy (b ''password'')
          \<and> firstMissing [(''database'', b ''database''), (''schema'', b ''schema''),
                           (''relation'', b ''relation'')] = Some n
        \<longrightarrow> takeWhile isSend (trace (snd (post_relation_preview E b (start w))))
            = [Send [(''status'', Str ''unsuccessful''),
                     (''reason'', Str (''A '' @ n @ '' must be provided''))]])"
proof -
  have v: "(previewValidation d sc rl :: ('stmt, 'v) obj list)
      = map mustBeProvided (allMissing [(''database'', d), (''schema'', sc), (''relation'', rl)])"
    for d sc rl
    by (simp add: previewValidation_def allMissing_def mustBeProvided_def)
  have f: "take (Suc 0) (allMissing fs) = (case firstMissing fs of None \<Rightarrow> [] | Some n \<Rightarrow> [n])" for fs
    by (induction fs) (simp_all add: allMissing_def firstMissing_def)
  have s: "takeWhile isSend (trace (snd (post_relation_preview E b (start w))))
            = [Send [(''status'', Str ''unsuccessful''),
                     (''reason'', Str (''A '' @ n @ '' must be provided''))]]"
    if "truthy (b ''account'') \<and> truthy (b ''username'') \<and> truthy (b ''password'')
          \<and> firstMissing [(''database'', b ''database''), (''schema'', b ''schema''),
                           (''relation'', b ''relation'')] = Some n" for n
  proof -
    have "sends (configCheck b) = ([] :: ('h, 'stmt, 'v) event list)"
      using that by (simp add: sends_def configCheck_def validateSnowflakeConnectionParams_def)
    moreover have "take 1 (previewValidation (b ''database'') (b ''schema'') (b ''relation'') :: ('stmt, 'v) obj list)
        = [mustBeProvided n]"
      using that by (simp add: v take_map f)
    ultimately show ?thesis by (simp add: preview_sends mustBeProvided_def)
  qed
  show ?thesis using v preview_sends [of E b w] s by blast
qed

theorem preview_check_surfaces_first_failure_witness:
  "(previewValidation None (Some ''SC'') (Some []) :: (nat, int) obj list)
      = [[(''status'', Str ''unsuccessful''), (''reason'', Str ''A database must be provided'')],
         [(''status'', Str ''unsuccessful''), (''reason'', Str ''A relation must be provided'')]]
   \<and> takeWhile isSend (trace (snd (post_relation_preview (scripted None False)
          (previewBody(''database'' := None, ''relation'' \<mapsto> [])) (start []))))
      = [Send [(''status'', Str ''unsuccessful''), (''reason'', Str ''A database must be provided'')]]"
proof -
  let ?b = "previewBody(''database'' := None, ''relation'' \<mapsto> [])"
  have a: "map mustBeProvided (allMissing [(''database'', None), (''schema'', Some ''SC''), (''relation'', Some [])])
      = ([[(''status'', Str ''unsuccessful''), (''reason'', Str ''A database must be provided'')],
         [(''status'', Str ''unsuccessful''), (''reason'', Str ''A relation must be provided'')]] :: (nat, int) obj list)"
    by (simp add: allMissing_def mustBeProvided_def truthy_def)
  have h: "truthy (?b ''account'') \<and> truthy (?b ''username'') \<and> truthy (?b ''password'')
          \<and> firstMissing [(''database'', ?b ''database''), (''schema'', ?b ''schema''),
                           (''relation'', ?b ''relation'')] = Some ''database''"
    by (simp add: previewBody_simps truthy_def firstMissing_def)
  note T = preview_check_surfaces_first_failure
      [of None "Some ''SC''" "Some []" "scripted None False" ?b "[]"]
  have one: "(previewValidation None (Some ''SC'') (Some []) :: (nat, int) obj list)
      = [[(''status'', Str ''unsuccessful''), (''reason'', Str ''A database must be provided'')],
         [(''status'', Str ''unsuccessful''), (''reason'', Str ''A relation must be provided'')]]"
    using T [THEN conjunct1] a by simp
  have two: "takeWhile isSend (trace (snd (post_relation_preview (scripted None False) ?b (start []))))
      = [Send [(''status'', Str ''unsuccessful''), (''reason'', Str ''A database must be provided'')]]"
    using T [THEN conjunct2, THEN conjunct2, rule_format, OF h] by simp
  show ?thesis using one two by (rule conjI)
qed

section \<open>The empty string is a missing field\<close>

text \<open>
  C10. Every check of a required field is a test for truthiness, so a field given as
  the empty string is reported exactly as an absent one. The connection check reports
  the first of \<open>account\<close>, \<open>username\<close>, \<open>password\<close> that is absent or empty, the
  query-text check reports a query that is absent or empty, and the preview check
  reports each of \<open>database\<close>, \<open>schema\<close>, \<open>relation\<close> that is absent or empty. So the
  three checks return the same result when empty strings are replaced by absent fields;
  with a good account and username, \<open>password: ""\<close> and no password both give \<open>{status:
  "unsuccessful", reason: "invalid password"}\<close>, and that is the first response of each
  of the three handlers; a preview request with good credentials and an empty or
  absent database is answered \<open>A database must be provided\<close>, a query request with good
  credentials and an empty or absent query \<open>A query must be provided\<close>; and each handler
  sends the same validation responses for a body and for the body with its empty
  strings removed. This is about the checks and the responses they produce; a handler
  that goes on after them hands the field to the driver as it is.
\<close>

theorem empty_string_is_missing:
  fixes E :: "('h, 'w, 'stmt, 'v) env"
  shows
  "(validateSnowflakeConnectionParams a u p :: ('stmt, 'v) obj option)
      = validateSnowflakeConnectionParams (blank a) (blank u) (blank p)
   \<and> (queryValidation q :: ('stmt, 'v) obj option) = queryValidation (blank q)
   \<and> (previewValidation d sc rl :: ('stmt, 'v) obj list)
      = previewValidation (blank d) (blank sc) (blank rl)
   \<and> (truthy a \<and> truthy u \<longrightarrow>
        (validateSnowflakeConnectionParams a u (Some []) :: ('stmt, 'v) obj option)
          = Some [(''status'', Str ''unsuccessful''), (''reason'', Str ''invalid password'')]
      \<and> (validateSnowflakeConnectionParams a u None :: ('stmt, 'v) obj option)
          = Some [(''status'', Str ''unsuccessful''), (''reason'', Str ''invalid password'')])
   \<and> takeWhile isSend (trace (snd (post_root E (\<lambda>k. blank (b k)) (start w))))
      = takeWhile isSend (trace (snd (post_root E b (start w))))
   \<and> takeWhile isSend (trace (snd (post_query E (\<lambda>k. blank (b k)) (start w))))
      = takeWhile isSend (trace (snd (post_query E b (start w))))
   \<and> takeWhile isSend (trace (snd (post_relation_preview E (\<lambda>k. blank (b k)) (start w))))
      = takeWhile isSend (trace (snd (post_relation_preview E b (start w))))
   \<and> (validateSnowflakeConnectionParams a u p :: ('stmt, 'v) obj option)
      = (if emptyOrAbsent a then
           Some [(''status'', Str ''unsuccessful''), (''reason'', Str ''invalid account'')]
         else if emptyOrAbsent u then
           Some [(''status'', Str ''unsuccessful''), (''reason'', Str ''invalid username'')]
         else if emptyOrAbsent p then
           Some [(''status'', Str ''unsuccessful''), (''reason'', Str ''invalid password'')]
         else None)
   \<and> (queryValidation q :: ('stmt, 'v) obj option)
      = (if emptyOrAbsent q then
           Some [(''status'', Str ''unsuccessful''), (''reason'', Str ''A query must be provided'')]
         else None)
   \<and> (previewValidation d sc rl :: ('stmt, 'v) obj list)
      = (if emptyOrAbsent d then
           [[(''status'', Str ''unsuccessful''), (''reason'', Str ''A database must be provided'')]]
         else [])
        @ (if emptyOrAbsent sc then
             [[(''status'', Str ''unsuccessful''), (''reason'', Str ''A schema must be provided'')]]
           else [])
        @ (if emptyOrAbsent rl then
             [[(''status'', Str ''unsuccessful''), (''reason'', Str ''A relation must be provided'')]]
           else [])
   \<and> (truthy (b ''account'') \<and> truthy (b ''username'') \<and> emptyOrAbsent (b ''password'') \<longrightarrow>
        takeWhile isSend (trace (snd (post_root E b (start w))))
          = [Send [(''status'', Str ''unsuccessful''), (''reason'', Str ''invalid password'')]]
      \<and> (\<exists>rest. trace (snd (post_query E b (start w)))
            = Send [(''status'', Str ''unsuccessful''), (''reason'', Str ''invalid password'')] # rest)
      \<and> (\<exists>rest. trace (snd (post_relation_preview E b (start w)))
            = Send [(''status'', Str ''unsuccessful''), (''reason'', Str ''invalid password'')] # rest))
   \<and> (truthy (b ''account'') \<and> truthy (b ''username'') \<and> truthy (b ''password'')
        \<and> emptyOrAbsent (b ''query'') \<longrightarrow>
        takeWhile isSend (trace (snd (post_query E b (start w))))
          = [Send [(''status'', Str ''unsuccessful''), (''reason'', Str ''A query must be provided'')]])
   \<and> (truthy (b ''account'') \<and> truthy (b ''username'') \<and> truthy (b ''password'')
        \<and> emptyOrAbsent (b ''database'') \<longrightarrow>
        takeWhile isSend (trace (snd (post_relation_preview E b (start w))))
          = [Send [(''status'', Str ''unsuccessful''), (''reason'', Str ''A database must be provided'')]])"
proof -
  have t: "truthy (blank x) = truthy x" for x
    by (simp add: blank_def truthy_def)
  have f: "truthy x = (\<not> emptyOrAbsent x)" for x
    by (cases x) (simp_all add: truthy_def emptyOrAbsent_def)
  have v: "(validateSnowflakeConnectionParams a u p :: ('stmt, 'v) obj option)
      = validateSnowflakeConnectionParams (blank a) (blank u) (blank p)" for a u p
    by (simp add: validateSnowflakeConnectionParams_def t)
  have q: "(queryValidation q :: ('stmt, 'v) obj option) = queryValidation (blank q)" for q
    by (simp add: queryValidation_def t)
  have pv: "(previewValidation d sc rl :: ('stmt, 'v) obj list)
      = previewValidation (blank d) (blank sc) (blank rl)" for d sc rl
    by (simp add: previewValidation_def t)
  have e: "truthy a \<and> truthy u \<longrightarrow>
        (validateSnowflakeConnectionParams a u (Some []) :: ('stmt, 'v) obj option)
          = Some [(''status'', Str ''unsuccessful''), (''reason'', Str ''invalid password'')]
      \<and> (validateSnowflakeConnectionParams a u None :: ('stmt, 'v) obj option)
          = Some [(''status'', Str ''unsuccessful''), (''reason'', Str ''invalid password'')]"
    by (simp add: validateSnowflakeConnectionParams_def truthy_def)
  have c: "(configCheck (\<lambda>k. blank (b k)) :: ('stmt, 'v) obj option) = configCheck b"
    using v [of "b ''account''" "b ''username''" "b ''password''"] by (simp add: configCheck_def)
  have r1: "takeWhile isSend (trace (snd (post_root E (\<lambda>k. blank (b k)) (start w))))
      = takeWhile isSend (trace (snd (post_root E b (start w))))"
    by (simp add: root_sends c)
  have r2: "takeWhile isSend (trace (snd (post_query E (\<lambda>k. blank (b k)) (start w))))
      = takeWhile isSend (trace (snd (post_query E b (start w))))"
    using q [of "b ''query''"] by (simp add: query_sends c)
  have r3: "takeWhile isSend (trace (snd (post_relation_preview E (\<lambda>k. blank (b k)) (start w))))
      = takeWhile isSend (trace (snd (post_relation_preview E b (start w))))"
    using pv [of "b ''database''" "b ''schema''" "b ''relation''"] by (simp add: preview_sends c)
  have va: "(validateSnowflakeConnectionParams a u p :: ('stmt, 'v) obj option)
      = (if emptyOrAbsent a then
           Some [(''status'', Str ''unsuccessful''), (''reason'', Str ''invalid account'')]
         else if emptyOrAbsent u then
           Some [(''status'', Str ''unsuccessful''), (''reason'', Str ''invalid username'')]
         else if emptyOrAbsent p then
           Some [(''status'', Str ''unsuccessful''), (''reason'', Str ''invalid password'')]
         else None)" for a u p
    by (simp add: validateSnowflakeConnectionParams_def f)
  have qa: "(queryValidation q :: ('stmt, 'v) obj option)
      = (if emptyOrAbsent q then
           Some [(''status'', Str ''unsuccessful''), (''reason'', Str ''A query must be provided'')]
         else None)" for q
    by (simp add: queryValidation_def f)
  have pa: "(previewValidation d sc rl :: ('stmt, 'v) obj list)
      = (if emptyOrAbsent d then
           [[(''status'', Str ''unsuccessful''), (''reason'', Str ''A database must be provided'')]]
         else [])
        @ (if emptyOrAbsent sc then
             [[(''status'', Str ''unsuccessful''), (''reason'', Str ''A schema must be provided'')]]
           else [])
        @ (if emptyOrAbsent rl then
             [[(''status'', Str ''unsuccessful''), (''reason'', Str ''A relation must be provided'')]]
           else [])" for d sc rl
    by (simp add: previewValidation_def f)
  have h1: "takeWhile isSend (trace (snd (post_root E b (start w))))
          = [Send [(''status'', Str ''unsuccessful''), (''reason'', Str ''invalid password'')]]
      \<and> (\<exists>rest. trace (snd (post_query E b (start w)))
            = Send [(''status'', Str ''unsuccessful''), (''reason'', Str ''invalid password'')] # rest)
      \<and> (\<exists>rest. trace (snd (post_relation_preview E b (start w)))
            = Send [(''status'', Str ''unsuccessful''), (''reason'', Str ''invalid password'')] # rest)"
    if "truthy (b ''account'') \<and> truthy (b ''username'') \<and> emptyOrAbsent (b ''password'')"
  proof -
    have cb: "configCheck b
        = Some [(''status'', Str ''unsuccessful''), (''reason'', Str ''invalid password'') :: string \<times> ('stmt, 'v) jsval]"
      using that by (simp add: configCheck_def va f)
    have "takeWhile isSend (trace (snd (post_root E b (start w))))
          = [Send [(''status'', Str ''unsuccessful''), (''reason'', Str ''invalid password'')]]"
      by (simp add: root_sends cb sends_def)
    moreover have "\<exists>rest. trace (snd (post_query E b (start w)))
            = Send [(''status'', Str ''unsuccessful''), (''reason'', Str ''invalid password'')] # rest"
      using query_prefix [of E b w] by (auto simp add: cb sends_def)
    moreover have "\<exists>rest. trace (snd (post_relation_preview E b (start w)))
            = Send [(''status'', Str ''unsuccessful''), (''reason'', Str ''invalid password'')] # rest"
      using preview_prefix [of E b w] by (auto simp add: cb sends_def)
    ultimately show ?thesis by blast
  qed
  have h2: "takeWhile isSend (trace (snd (post_query E b (start w))))
          = [Send [(''status'', Str ''unsuccessful''), (''reason'', Str ''A query must be provided'')]]"
    if "truthy (b ''account'') \<and> truthy (b ''username'') \<and> truthy (b ''password'')
        \<and> emptyOrAbsent (b ''query'')"
  proof -
    have "configCheck b = (None :: ('stmt, 'v) obj option)"
      using that by (simp add: configCheck_def validateSnowflakeConnectionParams_def)
    then show ?thesis using that by (simp add: query_sends sends_def qa)
  qed
  have h3: "takeWhile isSend (trace (snd (post_relation_preview E b (start w))))
          = [Send [(''status'', Str ''unsuccessful''), (''reason'', Str ''A database must be provided'')]]"
    if "truthy (b ''account'') \<and> truthy (b ''username'') \<and> truthy (b ''password'')
        \<and> emptyOrAbsent (b ''database'')"
  proof -
    have "configCheck b = (None :: ('stmt, 'v) obj option)"
      using that by (simp add: configCheck_def validateSnowflakeConnectionParams_def)
    then show ?thesis using that by (simp add: preview_sends sends_def pa)
  qed
  have i1: "truthy (b ''account'') \<and> truthy (b ''username'') \<and> emptyOrAbsent (b ''password'') \<longrightarrow>
        takeWhile isSend (trace (snd (post_root E b (start w))))
          = [Send [(''status'', Str ''unsuccessful''), (''reason'', Str ''invalid password'')]]
      \<and> (\<exists>rest. trace (snd (post_query E b (start w)))
            = Send [(''status'', Str ''unsuccessful''), (''reason'', Str ''invalid password'')] # rest)
      \<and> (\<exists>rest. trace (snd (post_relation_preview E b (start w)))
            = Send [(''status'', Str ''unsuccessful''), (''reason'', Str ''invalid password'')] # rest)"
    using h1 by (rule impI)
  have i2: "truthy (b ''account'') \<and> truthy (b ''username'') \<and> truthy (b ''password'')
        \<and> emptyOrAbsent (b ''query'') \<longrightarrow>
        takeWhile isSend (trace (snd (post_query E b (start w))))
          = [Send [(''status'', Str ''unsuccessful''), (''reason'', Str ''A query must be provided'')]]"
    using h2 by (rule impI)
  have i3: "truthy (b ''account'') \<and> truthy (b ''username'') \<and> truthy (b ''password'')
        \<and> emptyOrAbsent (b ''database'') \<longrightarrow>
        takeWhile isSend (trace (snd (post_relation_preview E b (start w))))
          = [Send [(''status'', Str ''unsuccessful''), (''reason'', Str ''A database must be provided'')]]"
    using h3 by (rule impI)
  show ?thesis
    by (rule conjI [OF v conjI [OF q conjI [OF pv conjI [OF e conjI [OF r1 conjI [OF r2
          conjI [OF r3 conjI [OF va conjI [OF qa conjI [OF pa conjI [OF i1 conjI [OF i2 i3]]]]]]]]]]]])
qed

theorem empty_string_is_missing_witness:
  "truthy (Some ''acct1'') \<and> truthy (Some ''u'')
   \<and> (validateSnowflakeConnectionParams (Some ''acct1'') (Some ''u'') (Some []) :: (nat, int) obj option)
          = Some [(''status'', Str ''unsuccessful''), (''reason'', Str ''invalid password'')]
   \<and> (validateSnowflakeConnectionParams (Some ''acct1'') (Some ''u'') None :: (nat, int) obj option)
          = Some [(''status'', Str ''unsuccessful''), (''reason'', Str ''invalid password'')]
   \<and> (previewValidation (Some []) (Some ''SC'') None :: (nat, int) obj list)
          = [[(''status'', Str ''unsuccessful''), (''reason'', Str ''A database must be provided'')],
             [(''status'', Str ''unsuccessful''), (''reason'', Str ''A relation must be provided'')]]
   \<and> takeWhile isSend (trace (snd (post_relation_preview (guarded None True)
          (previewBody(''database'' \<mapsto> [])) (start []))))
          = [Send [(''status'', Str ''unsuccessful''), (''reason'', Str ''A database must be provided'')]]"
proof -
  let ?b = "previewBody(''database'' \<mapsto> [])"
  note T = empty_string_is_missing
      [of "Some ''acct1''" "Some ''u''" "Some ''p''" None "Some []" "Some ''SC''" None
          "guarded None True" ?b "[]"]
  have t: "truthy (Some ''acct1'') \<and> truthy (Some ''u'')" by (simp add: truthy_def)
  have pw: "(validateSnowflakeConnectionParams (Some ''acct1'') (Some ''u'') (Some []) :: (nat, int) obj option)
          = Some [(''status'', Str ''unsuccessful''), (''reason'', Str ''invalid password'')]
      \<and> (validateSnowflakeConnectionParams (Some ''acct1'') (Some ''u'') None :: (nat, int) obj option)
          = Some [(''status'', Str ''unsuccessful''), (''reason'', Str ''invalid password'')]"
    using T [THEN conjunct2, THEN conjunct2, THEN conjunct2, THEN conjunct1, rule_format, OF t] .
  have pv: "(previewValidation (Some []) (Some ''SC'') None :: (nat, int) obj list)
          = [[(''status'', Str ''unsuccessful''), (''reason'', Str ''A database must be provided'')],
             [(''status'', Str ''unsuccessful''), (''reason'', Str ''A relation must be provided'')]]"
    using T [THEN conjunct2, THEN conjunct2, THEN conjunct2, THEN conjunct2, THEN conjunct2,
             THEN conjunct2, THEN conjunct2, THEN conjunct2, THEN conjunct2, THEN conjunct1]
    by (simp add: emptyOrAbsent_def)
  have h: "truthy (?b ''account'') \<and> truthy (?b ''username'') \<and> truthy (?b ''password'')
        \<and> emptyOrAbsent (?b ''database'')"
    by (simp add: previewBody_simps truthy_def emptyOrAbsent_def)
  have db: "takeWhile isSend (trace (snd (post_relation_preview (guarded None True) ?b (start []))))
          = [Send [(''status'', Str ''unsuccessful''), (''reason'', Str ''A database must be provided'')]]"
    using T [THEN conjunct2, THEN conjunct2, THEN conjunct2, THEN conjunct2, THEN conjunct2,
             THEN conjunct2, THEN conjunct2, THEN conjunct2, THEN conjunct2, THEN conjunct2,
             THEN conjunct2, THEN conjunct2, rule_format, OF h] .
  show ?thesis using t pw pv db by (intro conjI) (simp_all only:)
qed

end
